theory Spec2Isabelle
  imports Main "HOL-Library.Word" "HOL-Library.AList"
begin

section \<open>Strings, buffers and thrown values\<close>

text \<open>
  The adapter is TypeScript running on Node.js. A JavaScript string is a sequence of
  UTF-16 code units, a \<open>Buffer\<close> is a sequence of bytes. String literals of the source
  are written \<open>js ''...''\<close>; the few characters outside ASCII that the source's message
  templates use are given by their code units.
\<close>

type_synonym jschar = "16 word"
type_synonym jsstring = "jschar list"
type_synonym byte = "8 word"
type_synonym buffer = "byte list"

definition js :: "string \<Rightarrow> jsstring" where
  "js s = map (\<lambda>c. of_nat (of_char c)) s"

text \<open>U+274C, U+2705, U+1F4C4 and U+1F4E6 (the last two as surrogate pairs), U+00B0,
  the line feed and the double quote of the template literals.\<close>

definition cross_mark :: jsstring where "cross_mark = [0x274C]"
definition check_mark :: jsstring where "check_mark = [0x2705]"
definition page_icon :: jsstring where "page_icon = [0xD83D, 0xDCC4]"
definition package_icon :: jsstring where "package_icon = [0xD83D, 0xDCE6]"
definition degree_sign :: jsstring where "degree_sign = [0x00B0]"
definition nl :: jsstring where "nl = [0x000A]"
definition dquote :: jsstring where "dquote = [0x0022]"

text \<open>A thrown value is an \<open>Error\<close> object with its message, or any other value, kept
  as what \<open>String(error)\<close> gives for it.\<close>

datatype thrown = JsError jsstring | NonError jsstring

text \<open>Template interpolation of a non-negative integer (\<open>${index + 1}\<close>,
  \<open>${pdfFiles.length}\<close>, \<open>${status}\<close>): its decimal digits.\<close>

function show_nat :: "nat \<Rightarrow> jsstring" where
  "show_nat n =
     (if n < 10 then [of_nat (48 + n)]
      else show_nat (n div 10) @ [of_nat (48 + n mod 10)])"
  by pat_completeness auto
termination
  by (relation "measure id") auto

text \<open>\<open>String.prototype.trim\<close> removes the ECMAScript white space and line terminator
  code units from both ends.\<close>

definition is_js_space :: "jschar \<Rightarrow> bool" where
  "is_js_space c \<longleftrightarrow>
     c \<in> {0x0009, 0x000A, 0x000B, 0x000C, 0x000D, 0x0020, 0x00A0, 0x1680,
          0x2028, 0x2029, 0x202F, 0x205F, 0x3000, 0xFEFF}
     \<or> (0x2000 \<le> c \<and> c \<le> 0x200A)"

definition trim :: "jsstring \<Rightarrow> jsstring" where
  "trim s = rev (dropWhile is_js_space (rev (dropWhile is_js_space s)))"

text \<open>\<open>String.prototype.split\<close> with a one-character separator: the pieces between
  the separators, of which there is always at least one.\<close>

fun split_on :: "jschar \<Rightarrow> jsstring \<Rightarrow> jsstring list" where
  "split_on sep [] = [[]]"
| "split_on sep (c # cs) =
     (if c = sep then [] # split_on sep cs
      else (case split_on sep cs of
              [] \<Rightarrow> [[c]]
            | piece # pieces \<Rightarrow> (c # piece) # pieces))"

section \<open>Regular expressions of the source\<close>

text \<open>
  The two regular expressions of \<^verbatim>\<open>index.ts\<close> are anchored at the start of the input
  and are sequences of literals and of one greedy \<open>+\<close> over a character class. They are
  run by a backtracking matcher that tries the longest repetition first, as the
  ECMAScript matcher does, and returns what each repetition matched together with the
  input left after the match.
\<close>

datatype atom = Lit jsstring | Plus "jschar \<Rightarrow> bool"

fun first_match :: "('a \<Rightarrow> 'b option) \<Rightarrow> 'a list \<Rightarrow> 'b option" where
  "first_match f [] = None"
| "first_match f (x # xs) = (case f x of Some y \<Rightarrow> Some y | None \<Rightarrow> first_match f xs)"

fun match_here :: "atom list \<Rightarrow> jsstring \<Rightarrow> (jsstring list \<times> jsstring) option" where
  "match_here [] s = Some ([], s)"
| "match_here (Lit l # rest) s =
     (if take (length l) s = l then match_here rest (drop (length l) s) else None)"
| "match_here (Plus p # rest) s =
     first_match
       (\<lambda>n. case match_here rest (drop n s) of
              None \<Rightarrow> None
            | Some (caps, t) \<Rightarrow> Some (take n s # caps, t))
       (rev [1 ..< Suc (length (takeWhile p s))])"

text \<open>\<^verbatim>\<open>/^data:[^;]+;base64,/\<close>\<close>

definition data_url_prefix :: "atom list" where
  "data_url_prefix = [Lit (js ''data:''), Plus (\<lambda>c. c \<noteq> 0x3B), Lit (js '';base64,'')]"

text \<open>\<^verbatim>\<open>/^data:image\/(\w+);/\<close>, where \<open>\w\<close> is a letter, a digit or the underscore\<close>

definition is_word_char :: "jschar \<Rightarrow> bool" where
  "is_word_char c \<longleftrightarrow>
     (0x41 \<le> c \<and> c \<le> 0x5A) \<or> (0x61 \<le> c \<and> c \<le> 0x7A) \<or> (0x30 \<le> c \<and> c \<le> 0x39) \<or> c = 0x5F"

definition image_format :: "atom list" where
  "image_format = [Lit (js ''data:image/''), Plus is_word_char, Lit (js '';'')]"

section \<open>Base64 of the runtime\<close>

text \<open>
  \<open>buffer.toString("base64")\<close> and \<open>Buffer.from(text, "base64")\<close> are Node.js library
  calls. The encoder writes the standard alphabet with \<open>=\<close> padding and no line breaks.
  The decoder is lenient: it reads the low byte of each code unit, stops at the first
  \<open>=\<close>, skips every character outside the standard and the URL-safe alphabet, and
  turns the six-bit values that remain into bytes, dropping the bits of an incomplete
  last byte. It raises no error.
\<close>

definition base64_alphabet :: jsstring where
  "base64_alphabet =
     js ''ABCDEFGHIJKLMNOPQRSTUVWXYZabcdefghijklmnopqrstuvwxyz0123456789+/''"

definition b64char :: "nat \<Rightarrow> jschar" where
  "b64char n = base64_alphabet ! n"

definition unbase64 :: "byte \<Rightarrow> nat option" where
  "unbase64 c =
     (let n = unat c in
      if 65 \<le> n \<and> n \<le> 90 then Some (n - 65)
      else if 97 \<le> n \<and> n \<le> 122 then Some (n - 71)
      else if 48 \<le> n \<and> n \<le> 57 then Some (n + 4)
      else if n = 43 \<or> n = 45 then Some 62
      else if n = 47 \<or> n = 95 then Some 63
      else None)"

fun to_sextets :: "buffer \<Rightarrow> nat list" where
  "to_sextets (a # b # c # rest) =
     [unat a div 4, (unat a mod 4) * 16 + unat b div 16,
      (unat b mod 16) * 4 + unat c div 64, unat c mod 64] @ to_sextets rest"
| "to_sextets [a, b] =
     [unat a div 4, (unat a mod 4) * 16 + unat b div 16, (unat b mod 16) * 4]"
| "to_sextets [a] = [unat a div 4, (unat a mod 4) * 16]"
| "to_sextets [] = []"

definition toString_base64 :: "buffer \<Rightarrow> jsstring" where
  "toString_base64 buf =
     map b64char (to_sextets buf) @ replicate ((3 - length buf mod 3) mod 3) 0x3D"

fun from_sextets :: "nat list \<Rightarrow> buffer" where
  "from_sextets (p # q # r # s # rest) =
     [of_nat (p * 4 + q div 16), of_nat ((q mod 16) * 16 + r div 4),
      of_nat ((r mod 4) * 64 + s)] @ from_sextets rest"
| "from_sextets [p, q, r] = [of_nat (p * 4 + q div 16), of_nat ((q mod 16) * 16 + r div 4)]"
| "from_sextets [p, q] = [of_nat (p * 4 + q div 16)]"
| "from_sextets [p] = []"
| "from_sextets [] = []"

definition legal_sextets :: "jsstring \<Rightarrow> nat list" where
  "legal_sextets s =
     List.map_filter unbase64 (takeWhile (\<lambda>c. c \<noteq> 0x3D) (map ucast s))"

definition Buffer_from_base64 :: "jsstring \<Rightarrow> buffer" where
  "Buffer_from_base64 s = from_sextets (legal_sextets s)"

text \<open>Strict base64, as RFC 4648 has it: the standard alphabet only, a length that is a
  multiple of four, and one or two \<open>=\<close> only at the very end.\<close>

definition in_alphabet :: "jschar \<Rightarrow> bool" where
  "in_alphabet c \<longleftrightarrow> c \<in> set base64_alphabet"

definition valid_base64 :: "jsstring \<Rightarrow> bool" where
  "valid_base64 s \<longleftrightarrow>
     length s mod 4 = 0 \<and>
     (let chars = takeWhile (\<lambda>c. c \<noteq> 0x3D) s; pad = dropWhile (\<lambda>c. c \<noteq> 0x3D) s
      in list_all in_alphabet chars \<and> length pad \<le> 2 \<and> list_all (\<lambda>c. c = 0x3D) pad)"

section \<open>Codec and validator of \<^verbatim>\<open>index.ts\<close>\<close>

definition formatError :: "thrown \<Rightarrow> jsstring" where
  "formatError error =
     (case error of
        JsError message \<Rightarrow> cross_mark @ js '' Error: '' @ message
      | NonError text \<Rightarrow> cross_mark @ js '' Error: '' @ text)"

definition validateRequired :: "jsstring option \<Rightarrow> jsstring \<Rightarrow> thrown + jsstring" where
  "validateRequired val name =
     (case val of
        None \<Rightarrow> Inl (JsError (name @ js '' is required''))
      | Some v \<Rightarrow>
          if v = [] \<or> trim v = [] then Inl (JsError (name @ js '' is required''))
          else Inr (trim v))"

definition strip_data_url :: "jsstring \<Rightarrow> jsstring" where
  "strip_data_url base64 =
     (case match_here data_url_prefix base64 of
        None \<Rightarrow> base64
      | Some (caps, rest) \<Rightarrow> rest)"

definition base64ToBuffer :: "jsstring \<Rightarrow> thrown + buffer" where
  "base64ToBuffer base64 =
     (let base64Data = strip_data_url base64
      in Inr (Buffer_from_base64 base64Data))"

definition bufferToBase64DataUrl :: "buffer \<Rightarrow> jsstring option \<Rightarrow> jsstring" where
  "bufferToBase64DataUrl buf mimeType_arg =
     (let mimeType = (case mimeType_arg of None \<Rightarrow> js ''application/pdf'' | Some m \<Rightarrow> m)
      in js ''data:'' @ mimeType @ js '';base64,'' @ toString_base64 buf)"

section \<open>UTF-8 text of a response body\<close>

text \<open>
  \<open>buffer.toString("utf-8")\<close> is the runtime's UTF-8 decoder: every well-formed sequence
  gives its code point, every ill-formed one gives U+FFFD for its longest well-formed
  start (at least one byte), and a code point beyond U+FFFF is written as a surrogate
  pair.
\<close>

definition continuation :: "nat \<Rightarrow> bool" where
  "continuation b \<longleftrightarrow> 0x80 \<le> b \<and> b \<le> 0xBF"

definition second_of_three :: "nat \<Rightarrow> nat \<Rightarrow> bool" where
  "second_of_three a b \<longleftrightarrow>
     (if a = 0xE0 then 0xA0 \<le> b \<and> b \<le> 0xBF
      else if a = 0xED then 0x80 \<le> b \<and> b \<le> 0x9F
      else continuation b)"

definition second_of_four :: "nat \<Rightarrow> nat \<Rightarrow> bool" where
  "second_of_four a b \<longleftrightarrow>
     (if a = 0xF0 then 0x90 \<le> b \<and> b \<le> 0xBF
      else if a = 0xF4 then 0x80 \<le> b \<and> b \<le> 0x8F
      else continuation b)"

fun utf8_points :: "nat list \<Rightarrow> nat list" where
  "utf8_points [] = []"
| "utf8_points (a # bs) =
     (if a < 0x80 then a # utf8_points bs
      else if 0xC2 \<le> a \<and> a \<le> 0xDF then
        (case bs of
           [] \<Rightarrow> [0xFFFD]
         | b # cs \<Rightarrow>
             if continuation b then ((a - 0xC0) * 64 + (b - 0x80)) # utf8_points cs
             else 0xFFFD # utf8_points bs)
      else if 0xE0 \<le> a \<and> a \<le> 0xEF then
        (case bs of
           [] \<Rightarrow> [0xFFFD]
         | b # cs \<Rightarrow>
             if second_of_three a b then
               (case cs of
                  [] \<Rightarrow> [0xFFFD]
                | c # ds \<Rightarrow>
                    if continuation c
                    then (((a - 0xE0) * 64 + (b - 0x80)) * 64 + (c - 0x80)) # utf8_points ds
                    else 0xFFFD # utf8_points cs)
             else 0xFFFD # utf8_points bs)
      else if 0xF0 \<le> a \<and> a \<le> 0xF4 then
        (case bs of
           [] \<Rightarrow> [0xFFFD]
         | b # cs \<Rightarrow>
             if second_of_four a b then
               (case cs of
                  [] \<Rightarrow> [0xFFFD]
                | c # ds \<Rightarrow>
                    if continuation c then
                      (case ds of
                         [] \<Rightarrow> [0xFFFD]
                       | d # es \<Rightarrow>
                           if continuation d
                           then ((((a - 0xF0) * 64 + (b - 0x80)) * 64 + (c - 0x80)) * 64
                                  + (d - 0x80)) # utf8_points es
                           else 0xFFFD # utf8_points ds)
                    else 0xFFFD # utf8_points cs)
             else 0xFFFD # utf8_points bs)
      else 0xFFFD # utf8_points bs)"

definition utf16_units :: "nat \<Rightarrow> jsstring" where
  "utf16_units cp =
     (if cp < 0x10000 then [of_nat cp]
      else [of_nat (0xD800 + (cp - 0x10000) div 1024), of_nat (0xDC00 + (cp - 0x10000) mod 1024)])"

definition toString_utf8 :: "buffer \<Rightarrow> jsstring" where
  "toString_utf8 buf = concat (map utf16_units (utf8_points (map unat buf)))"

section \<open>Multipart requests and the remote API\<close>

text \<open>
  A \<open>FormData\<close> is the ordered list of its parts: a binary attachment (field name,
  content, file name) or a text field (field name, value). The process environment
  holds the two settings and, for the model, what stands outside the program: the
  boundary the multipart library generates; the remote service, which answers a
  request with an HTTP response (status, reason, \<open>Location\<close> header, empty when the
  response has none, and body), with no response at all (the description of the
  transport failure: connection refused, timeout, DNS), or with some other exception
  raised while sending; and the request the HTTP client sends next when it follows a
  redirect with a given status to a given location. The network state is the list of
  the requests the program hands to \<open>axios.post\<close>, one for each call of the API client;
  the requests the HTTP client sends on its own to follow redirects are not listed.
  Logging to standard error is not modelled.
\<close>

datatype part = FilePart jsstring buffer jsstring | FieldPart jsstring jsstring

type_synonym formdata = "part list"

definition append_file :: "formdata \<Rightarrow> jsstring \<Rightarrow> buffer \<Rightarrow> jsstring \<Rightarrow> formdata" where
  "append_file formData name buf filename = formData @ [FilePart name buf filename]"

definition append_field :: "formdata \<Rightarrow> jsstring \<Rightarrow> jsstring \<Rightarrow> formdata" where
  "append_field formData name val = formData @ [FieldPart name val]"

fun is_file_part :: "part \<Rightarrow> bool" where
  "is_file_part (FilePart name buf filename) = True"
| "is_file_part (FieldPart name val) = False"

record request =
  url :: jsstring
  headers :: "(jsstring \<times> jsstring) list"
  body :: formdata

datatype reply = Response nat jsstring jsstring buffer | NoResponse jsstring | Fault thrown

record env =
  env_url :: "jsstring option"
  env_api_key :: "jsstring option"
  boundary :: jsstring
  upstream :: "request \<Rightarrow> reply"
  redirected :: "nat \<Rightarrow> jsstring \<Rightarrow> request \<Rightarrow> request"

definition STIRLING_PDF_URL :: "env \<Rightarrow> jsstring" where
  "STIRLING_PDF_URL e =
     (case env_url e of
        None \<Rightarrow> js ''http://localhost:8080''
      | Some u \<Rightarrow> if u = [] then js ''http://localhost:8080'' else u)"

definition STIRLING_PDF_API_KEY :: "env \<Rightarrow> jsstring" where
  "STIRLING_PDF_API_KEY e = (case env_api_key e of None \<Rightarrow> [] | Some k \<Rightarrow> k)"

definition getHeaders :: "env \<Rightarrow> formdata \<Rightarrow> (jsstring \<times> jsstring) list" where
  "getHeaders e formData =
     [(js ''content-type'', js ''multipart/form-data; boundary='' @ boundary e)]"

text \<open>
  \<open>axios.post\<close> as \<open>callStirlingAPI\<close> calls it, with the defaults for what the call
  does not set; it does not set \<open>maxRedirects\<close>, and the default is 21. The HTTP client
  follows a response with a status from 300 to 399 and a \<open>Location\<close> header: it sends
  the next request instead of settling the promise. \<open>follow e budget req\<close> sends \<open>req\<close>
  when \<open>budget\<close> more redirects may be followed; a redirect that comes when the budget
  is used up rejects the promise with an \<open>AxiosError\<close> that has no response. The
  response that is not followed is settled by the default \<open>validateStatus\<close>: a status
  from 200 to 299 fulfils the promise with the body; any other status rejects it with
  an \<open>AxiosError\<close> that carries the response. No response rejects it with an
  \<open>AxiosError\<close> without one, whose message describes the transport failure.
\<close>

record response =
  status :: nat
  statusText :: jsstring
  data :: "buffer option"

datatype axios_outcome =
  Fulfilled buffer | AxiosError jsstring "response option" | Thrown thrown

definition maxRedirects :: nat where
  "maxRedirects = 21"

definition follows_redirect :: "nat \<Rightarrow> jsstring \<Rightarrow> bool" where
  "follows_redirect st location \<longleftrightarrow> location \<noteq> [] \<and> 300 \<le> st \<and> st < 400"

definition settle :: "nat \<Rightarrow> jsstring \<Rightarrow> buffer \<Rightarrow> axios_outcome" where
  "settle st reason content =
     (if 200 \<le> st \<and> st < 300 then Fulfilled content
      else AxiosError (js ''Request failed with status code '' @ show_nat st)
             (Some \<lparr>status = st, statusText = reason, data = Some content\<rparr>))"

fun follow :: "env \<Rightarrow> nat \<Rightarrow> request \<Rightarrow> axios_outcome" where
  "follow e 0 req =
     (case upstream e req of
        Response st reason location content \<Rightarrow>
          if follows_redirect st location
          then AxiosError (js ''Maximum number of redirects exceeded'') None
          else settle st reason content
      | NoResponse cause \<Rightarrow> AxiosError cause None
      | Fault x \<Rightarrow> Thrown x)"
| "follow e (Suc left) req =
     (case upstream e req of
        Response st reason location content \<Rightarrow>
          if follows_redirect st location
          then follow e left (redirected e st location req)
          else settle st reason content
      | NoResponse cause \<Rightarrow> AxiosError cause None
      | Fault x \<Rightarrow> Thrown x)"

definition axios_post :: "env \<Rightarrow> request \<Rightarrow> axios_outcome" where
  "axios_post e req = follow e maxRedirects req"

type_synonym network = "request list"
type_synonym 'a io = "network \<Rightarrow> (thrown + 'a) \<times> network"

definition return_io :: "'a \<Rightarrow> 'a io" where
  "return_io x net = (Inr x, net)"

definition attempt :: "thrown + 'a \<Rightarrow> 'a io" where
  "attempt r net = (r, net)"

definition bind_io :: "'a io \<Rightarrow> ('a \<Rightarrow> 'b io) \<Rightarrow> 'b io" where
  "bind_io m f net =
     (case m net of
        (Inl x, net') \<Rightarrow> (Inl x, net')
      | (Inr v, net') \<Rightarrow> f v net')"

definition try_catch :: "jsstring io \<Rightarrow> (thrown \<Rightarrow> jsstring) \<Rightarrow> network \<Rightarrow> jsstring \<times> network" where
  "try_catch m handler net =
     (case m net of
        (Inl x, net') \<Rightarrow> (handler x, net')
      | (Inr text, net') \<Rightarrow> (text, net'))"

text \<open>\<open>Array.prototype.forEach\<close> with a callback on the element and its index that
  updates the form and may throw.\<close>

fun forEach :: "('a \<Rightarrow> nat \<Rightarrow> 's \<Rightarrow> thrown + 's) \<Rightarrow> 'a list \<Rightarrow> nat \<Rightarrow> 's \<Rightarrow> thrown + 's" where
  "forEach f [] index st = Inr st"
| "forEach f (x # xs) index st =
     (case f x index st of
        Inl e \<Rightarrow> Inl e
      | Inr st' \<Rightarrow> forEach f xs (Suc index) st')"

definition callStirlingAPI :: "env \<Rightarrow> jsstring \<Rightarrow> formdata \<Rightarrow> buffer io" where
  "callStirlingAPI e endpoint formData net =
     (let target = STIRLING_PDF_URL e @ endpoint;
          hdrs = getHeaders e formData;
          hdrs = (if STIRLING_PDF_API_KEY e \<noteq> []
                  then AList.update (js ''X-API-KEY'') (STIRLING_PDF_API_KEY e) hdrs
                  else hdrs);
          req = \<lparr>url = target, headers = hdrs, body = formData\<rparr>
      in (case axios_post e req of
            Fulfilled content \<Rightarrow> Inr content
          | AxiosError message resp \<Rightarrow>
              (let code = (case resp of
                             None \<Rightarrow> js ''unknown''
                           | Some r \<Rightarrow> if status r = 0 then js ''unknown''
                                       else show_nat (status r));
                   reason = (case resp of
                               None \<Rightarrow> js ''Unknown Error''
                             | Some r \<Rightarrow> if statusText r = [] then js ''Unknown Error''
                                         else statusText r);
                   errorData = (case resp of
                                  None \<Rightarrow> []
                                | Some r \<Rightarrow> (case data r of
                                              None \<Rightarrow> []
                                            | Some d \<Rightarrow> toString_utf8 d))
               in Inl (JsError (js ''Stirling PDF API returned '' @ code @ js '': '' @
                                (if errorData \<noteq> [] then errorData else reason))))
          | Thrown x \<Rightarrow> Inl x,
          net @ [req]))"

section \<open>The ten tools\<close>

text \<open>
  Each tool is an \<open>async\<close> function whose body is one \<open>try\<close> block; its \<open>catch\<close>
  turns whatever was thrown into the text \<open>formatError\<close> gives. A parameter with a
  default value takes the default when the argument is absent.
\<close>

definition or_default :: "'a \<Rightarrow> 'a option \<Rightarrow> 'a" where
  "or_default d arg = (case arg of None \<Rightarrow> d | Some v \<Rightarrow> v)"

text \<open>\<open>mergePDFs\<close>\<close>

definition mergePDFs ::
  "env \<Rightarrow> jsstring list option \<Rightarrow> jsstring option \<Rightarrow> network \<Rightarrow> jsstring \<times> network" where
  "mergePDFs e pdfFiles_arg sortType_arg =
     (let pdfFiles = or_default [] pdfFiles_arg;
          sortType = or_default (js ''orderProvided'') sortType_arg
      in try_catch
        (bind_io (attempt (if length pdfFiles < 2
                           then Inl (JsError (js ''At least 2 PDF files are required for merging''))
                           else Inr ())) (\<lambda>_.
         bind_io (attempt (forEach
                    (\<lambda>base64Pdf index formData.
                       case base64ToBuffer base64Pdf of
                         Inl x \<Rightarrow> Inl x
                       | Inr buf \<Rightarrow>
                           Inr (append_file formData (js ''fileInput'') buf
                                  (js ''file'' @ show_nat (index + 1) @ js ''.pdf'')))
                    pdfFiles 0 [])) (\<lambda>formData.
         let formData = append_field formData (js ''sortType'') sortType in
         bind_io (callStirlingAPI e (js ''/api/v1/general/merge-pdfs'') formData) (\<lambda>resultBuffer.
         let resultBase64 = bufferToBase64DataUrl resultBuffer None in
         return_io (check_mark @ js '' Successfully merged '' @ show_nat (length pdfFiles) @
                    js '' PDF files'' @ nl @ nl @ page_icon @
                    js '' Result (base64 data URL):'' @ nl @ resultBase64)))))
        formatError)"

text \<open>\<open>splitPDF\<close>\<close>

definition splitPDF ::
  "env \<Rightarrow> jsstring option \<Rightarrow> jsstring option \<Rightarrow> network \<Rightarrow> jsstring \<times> network" where
  "splitPDF e pdfFile_arg pageNumbers_arg =
     (let pdfFile = or_default [] pdfFile_arg;
          pageNumbers = or_default [] pageNumbers_arg
      in try_catch
        (bind_io (attempt (validateRequired (Some pdfFile) (js ''pdfFile''))) (\<lambda>_.
         bind_io (attempt (validateRequired (Some pageNumbers) (js ''pageNumbers''))) (\<lambda>_.
         bind_io (attempt (base64ToBuffer pdfFile)) (\<lambda>buf.
         let formData = [];
             formData = append_file formData (js ''fileInput'') buf (js ''input.pdf'');
             formData = append_field formData (js ''pageNumbers'') pageNumbers in
         bind_io (callStirlingAPI e (js ''/api/v1/general/split-pages'') formData) (\<lambda>resultBuffer.
         let resultBase64 = bufferToBase64DataUrl resultBuffer (Some (js ''application/zip'')) in
         return_io (check_mark @ js '' Successfully split PDF at pages: '' @ pageNumbers @
                    nl @ nl @ package_icon @ js '' Result (ZIP file as base64 data URL):'' @ nl @
                    resultBase64))))))
        formatError)"

text \<open>\<open>compressPDF\<close>\<close>

definition compressPDF ::
  "env \<Rightarrow> jsstring option \<Rightarrow> jsstring option \<Rightarrow> network \<Rightarrow> jsstring \<times> network" where
  "compressPDF e pdfFile_arg optimizeLevel_arg =
     (let pdfFile = or_default [] pdfFile_arg;
          optimizeLevel = or_default (js ''2'') optimizeLevel_arg
      in try_catch
        (bind_io (attempt (validateRequired (Some pdfFile) (js ''pdfFile''))) (\<lambda>_.
         bind_io (attempt (base64ToBuffer pdfFile)) (\<lambda>buf.
         let formData = [];
             formData = append_file formData (js ''fileInput'') buf (js ''input.pdf'');
             formData = append_field formData (js ''optimizeLevel'') optimizeLevel;
             formData = append_field formData (js ''fastWebView'') (js ''false'') in
         bind_io (callStirlingAPI e (js ''/api/v1/misc/compress-pdf'') formData) (\<lambda>resultBuffer.
         let resultBase64 = bufferToBase64DataUrl resultBuffer None in
         return_io (check_mark @ js '' Successfully compressed PDF (optimization level: '' @
                    optimizeLevel @
                    js '')'' @ nl @ nl @ page_icon @ js '' Result (base64 data URL):'' @ nl @
                    resultBase64)))))
        formatError)"

text \<open>\<open>convertPDFToImages\<close>\<close>

definition convertPDFToImages ::
  "env \<Rightarrow> jsstring option \<Rightarrow> jsstring option \<Rightarrow> jsstring option \<Rightarrow> network \<Rightarrow> jsstring \<times> network" where
  "convertPDFToImages e pdfFile_arg imageFormat_arg dpi_arg =
     (let pdfFile = or_default [] pdfFile_arg;
          imageFormat = or_default (js ''png'') imageFormat_arg;
          dpi = or_default (js ''300'') dpi_arg
      in try_catch
        (bind_io (attempt (validateRequired (Some pdfFile) (js ''pdfFile''))) (\<lambda>_.
         bind_io (attempt (base64ToBuffer pdfFile)) (\<lambda>buf.
         let formData = [];
             formData = append_file formData (js ''fileInput'') buf (js ''input.pdf'');
             formData = append_field formData (js ''imageFormat'') imageFormat;
             formData = append_field formData (js ''dpi'') dpi;
             formData = append_field formData (js ''colorType'') (js ''color'');
             formData = append_field formData (js ''singleOrMultiple'') (js ''multiple'') in
         bind_io (callStirlingAPI e (js ''/api/v1/convert/pdf/img'') formData) (\<lambda>resultBuffer.
         let resultBase64 = bufferToBase64DataUrl resultBuffer (Some (js ''application/zip'')) in
         return_io (check_mark @ js '' Successfully converted PDF to '' @ imageFormat @
                    js '' images'' @
                    nl @ nl @ package_icon @ js '' Result (ZIP file as base64 data URL):'' @ nl @
                    resultBase64)))))
        formatError)"

text \<open>\<open>rotatePDF\<close>\<close>

definition rotatePDF ::
  "env \<Rightarrow> jsstring option \<Rightarrow> jsstring option \<Rightarrow> jsstring option \<Rightarrow> network \<Rightarrow> jsstring \<times> network" where
  "rotatePDF e pdfFile_arg angle_arg pageNumbers_arg =
     (let pdfFile = or_default [] pdfFile_arg;
          angle = or_default (js ''90'') angle_arg;
          pageNumbers = or_default (js ''all'') pageNumbers_arg
      in try_catch
        (bind_io (attempt (validateRequired (Some pdfFile) (js ''pdfFile''))) (\<lambda>_.
         bind_io (attempt (base64ToBuffer pdfFile)) (\<lambda>buf.
         let formData = [];
             formData = append_file formData (js ''fileInput'') buf (js ''input.pdf'');
             formData = append_field formData (js ''angle'') angle;
             formData = append_field formData (js ''pageNumbers'') pageNumbers in
         bind_io (callStirlingAPI e (js ''/api/v1/general/rotate-pdf'') formData) (\<lambda>resultBuffer.
         let resultBase64 = bufferToBase64DataUrl resultBuffer None in
         return_io (check_mark @ js '' Successfully rotated PDF pages by '' @ angle @ degree_sign @
                    nl @ nl @ page_icon @ js '' Result (base64 data URL):'' @ nl @ resultBase64)))))
        formatError)"

text \<open>\<open>addWatermark\<close>\<close>

definition addWatermark ::
  "env \<Rightarrow> jsstring option \<Rightarrow> jsstring option \<Rightarrow> jsstring option \<Rightarrow> jsstring option \<Rightarrow> jsstring option
     \<Rightarrow> network \<Rightarrow> jsstring \<times> network" where
  "addWatermark e pdfFile_arg watermarkText_arg fontSize_arg opacity_arg rotation_arg =
     (let pdfFile = or_default [] pdfFile_arg;
          watermarkText = or_default [] watermarkText_arg;
          fontSize = or_default (js ''30'') fontSize_arg;
          opacity = or_default (js ''0.5'') opacity_arg;
          rotation = or_default (js ''45'') rotation_arg
      in try_catch
        (bind_io (attempt (validateRequired (Some pdfFile) (js ''pdfFile''))) (\<lambda>_.
         bind_io (attempt (validateRequired (Some watermarkText) (js ''watermarkText''))) (\<lambda>_.
         bind_io (attempt (base64ToBuffer pdfFile)) (\<lambda>buf.
         let formData = [];
             formData = append_file formData (js ''fileInput'') buf (js ''input.pdf'');
             formData = append_field formData (js ''watermarkType'') (js ''text'');
             formData = append_field formData (js ''watermarkText'') watermarkText;
             formData = append_field formData (js ''alphabet'') (js ''roman'');
             formData = append_field formData (js ''fontSize'') fontSize;
             formData = append_field formData (js ''rotation'') rotation;
             formData = append_field formData (js ''opacity'') opacity;
             formData = append_field formData (js ''widthSpacer'') (js ''50'');
             formData = append_field formData (js ''heightSpacer'') (js ''50'');
             formData = append_field formData (js ''customColor'') (js ''#000000'') in
         bind_io (callStirlingAPI e (js ''/api/v1/security/add-watermark'') formData) (\<lambda>resultBuffer.
         let resultBase64 = bufferToBase64DataUrl resultBuffer None in
         return_io (check_mark @ js '' Successfully added watermark: '' @ dquote @ watermarkText @
                    dquote @
                    nl @ nl @ page_icon @ js '' Result (base64 data URL):'' @ nl @
                    resultBase64))))))
        formatError)"

text \<open>\<open>removePages\<close>\<close>

definition removePages ::
  "env \<Rightarrow> jsstring option \<Rightarrow> jsstring option \<Rightarrow> network \<Rightarrow> jsstring \<times> network" where
  "removePages e pdfFile_arg pagesToRemove_arg =
     (let pdfFile = or_default [] pdfFile_arg;
          pagesToRemove = or_default [] pagesToRemove_arg
      in try_catch
        (bind_io (attempt (validateRequired (Some pdfFile) (js ''pdfFile''))) (\<lambda>_.
         bind_io (attempt (validateRequired (Some pagesToRemove) (js ''pagesToRemove''))) (\<lambda>_.
         bind_io (attempt (base64ToBuffer pdfFile)) (\<lambda>buf.
         let formData = [];
             formData = append_file formData (js ''fileInput'') buf (js ''input.pdf'');
             formData = append_field formData (js ''pagesToDelete'') pagesToRemove in
         bind_io (callStirlingAPI e (js ''/api/v1/general/remove-pages'') formData) (\<lambda>resultBuffer.
         let resultBase64 = bufferToBase64DataUrl resultBuffer None in
         return_io (check_mark @ js '' Successfully removed pages: '' @ pagesToRemove @
                    nl @ nl @ page_icon @ js '' Result (base64 data URL):'' @ nl @
                    resultBase64))))))
        formatError)"

text \<open>\<open>extractImages\<close>\<close>

definition extractImages ::
  "env \<Rightarrow> jsstring option \<Rightarrow> jsstring option \<Rightarrow> network \<Rightarrow> jsstring \<times> network" where
  "extractImages e pdfFile_arg format_arg =
     (let pdfFile = or_default [] pdfFile_arg;
          format = or_default (js ''png'') format_arg
      in try_catch
        (bind_io (attempt (validateRequired (Some pdfFile) (js ''pdfFile''))) (\<lambda>_.
         bind_io (attempt (base64ToBuffer pdfFile)) (\<lambda>buf.
         let formData = [];
             formData = append_file formData (js ''fileInput'') buf (js ''input.pdf'');
             formData = append_field formData (js ''format'') format in
         bind_io (callStirlingAPI e (js ''/api/v1/general/extract-images'') formData) (\<lambda>resultBuffer.
         let resultBase64 = bufferToBase64DataUrl resultBuffer (Some (js ''application/zip'')) in
         return_io (check_mark @ js '' Successfully extracted images from PDF'' @
                    nl @ nl @ package_icon @ js '' Result (ZIP file as base64 data URL):'' @ nl @
                    resultBase64)))))
        formatError)"

text \<open>\<open>convertImagesToPDF\<close>; \<open>base64Image.match(...)\<close> gives the captured groups of
  \<^verbatim>\<open>/^data:image\/(\w+);/\<close>, or nothing.\<close>

definition match_image_format :: "jsstring \<Rightarrow> jsstring list option" where
  "match_image_format base64Image = map_option fst (match_here image_format base64Image)"

definition convertImagesToPDF ::
  "env \<Rightarrow> jsstring list option \<Rightarrow> jsstring option \<Rightarrow> jsstring option \<Rightarrow> network
     \<Rightarrow> jsstring \<times> network" where
  "convertImagesToPDF e imageFiles_arg fitOption_arg colorType_arg =
     (let imageFiles = or_default [] imageFiles_arg;
          fitOption = or_default (js ''fillPage'') fitOption_arg;
          colorType = or_default (js ''color'') colorType_arg
      in try_catch
        (bind_io (attempt (if length imageFiles < 1
                           then Inl (JsError (js ''At least 1 image file is required''))
                           else Inr ())) (\<lambda>_.
         bind_io (attempt (forEach
                    (\<lambda>base64Image index formData.
                       case base64ToBuffer base64Image of
                         Inl x \<Rightarrow> Inl x
                       | Inr buf \<Rightarrow>
                           (let formatMatch = match_image_format base64Image;
                                ext = (case formatMatch of
                                         None \<Rightarrow> js ''png''
                                       | Some groups \<Rightarrow> groups ! 0)
                            in Inr (append_file formData (js ''fileInput'') buf
                                     (js ''image'' @ show_nat (index + 1) @ js ''.'' @ ext))))
                    imageFiles 0 [])) (\<lambda>formData.
         let formData = append_field formData (js ''fitOption'') fitOption;
             formData = append_field formData (js ''colorType'') colorType;
             formData = append_field formData (js ''autoRotate'') (js ''false'') in
         bind_io (callStirlingAPI e (js ''/api/v1/convert/img/pdf'') formData) (\<lambda>resultBuffer.
         let resultBase64 = bufferToBase64DataUrl resultBuffer None in
         return_io (check_mark @ js '' Successfully converted '' @ show_nat (length imageFiles) @
                    js '' images to PDF'' @ nl @ nl @ page_icon @
                    js '' Result (base64 data URL):'' @ nl @ resultBase64)))))
        formatError)"

text \<open>\<open>ocrPDF\<close>\<close>

definition ocrPDF ::
  "env \<Rightarrow> jsstring option \<Rightarrow> jsstring option \<Rightarrow> jsstring option \<Rightarrow> jsstring option
     \<Rightarrow> jsstring option \<Rightarrow> jsstring option \<Rightarrow> jsstring option \<Rightarrow> network
     \<Rightarrow> jsstring \<times> network" where
  "ocrPDF e pdfFile_arg languages_arg sidecar_arg deskew_arg clean_arg cleanFinal_arg ocrType_arg =
     (let pdfFile = or_default [] pdfFile_arg;
          languages = or_default (js ''eng'') languages_arg;
          sidecar = or_default (js ''false'') sidecar_arg;
          deskew = or_default (js ''false'') deskew_arg;
          clean = or_default (js ''false'') clean_arg;
          cleanFinal = or_default (js ''false'') cleanFinal_arg;
          ocrType = or_default (js ''skip-text'') ocrType_arg
      in try_catch
        (bind_io (attempt (validateRequired (Some pdfFile) (js ''pdfFile''))) (\<lambda>_.
         bind_io (attempt (base64ToBuffer pdfFile)) (\<lambda>buf.
         let formData = [];
             formData = append_file formData (js ''fileInput'') buf (js ''input.pdf'');
             langArray = map trim (split_on 0x2C languages);
             formData = foldl (\<lambda>fd lang. append_field fd (js ''languages'') lang) formData langArray;
             formData = append_field formData (js ''sidecar'') sidecar;
             formData = append_field formData (js ''deskew'') deskew;
             formData = append_field formData (js ''clean'') clean;
             formData = append_field formData (js ''cleanFinal'') cleanFinal;
             formData = append_field formData (js ''ocrType'') ocrType in
         bind_io (callStirlingAPI e (js ''/api/v1/misc/ocr-pdf'') formData) (\<lambda>resultBuffer.
         let resultBase64 = bufferToBase64DataUrl resultBuffer None in
         return_io (check_mark @ js '' Successfully performed OCR on PDF'' @ nl @
                    js ''Languages: '' @ languages @ nl @ nl @ page_icon @
                    js '' Result (base64 data URL):'' @ nl @ resultBase64)))))
        formatError)"

section \<open>Tool catalogue and dispatcher\<close>

text \<open>
  The request handler for \<open>CallToolRequestSchema\<close>. The argument object maps names to
  strings or to arrays of strings, as the casts of the source read it; \<open>|| d\<close> replaces
  an absent or empty string by \<open>d\<close> and an absent array by the empty one. The response
  envelope holds one text item and, after a \<open>catch\<close>, the flag \<open>isError\<close>.
\<close>

definition TOOLS :: "jsstring list" where
  "TOOLS = [js ''merge_pdfs'', js ''split_pdf'', js ''compress_pdf'', js ''convert_pdf_to_images'',
            js ''rotate_pdf'', js ''add_watermark'', js ''remove_pages'', js ''extract_images'',
            js ''convert_images_to_pdf'', js ''ocr_pdf'']"

record args =
  strings :: "jsstring \<Rightarrow> jsstring option"
  arrays :: "jsstring \<Rightarrow> jsstring list option"

definition str_or :: "args \<Rightarrow> jsstring \<Rightarrow> jsstring \<Rightarrow> jsstring" where
  "str_or a key d = (case strings a key of None \<Rightarrow> d | Some v \<Rightarrow> if v = [] then d else v)"

definition arr_or :: "args \<Rightarrow> jsstring \<Rightarrow> jsstring list" where
  "arr_or a key = (case arrays a key of None \<Rightarrow> [] | Some v \<Rightarrow> v)"

record content_item =
  item_type :: jsstring
  item_text :: jsstring

record envelope =
  content :: "content_item list"
  isError :: "bool option"

definition switch_name :: "env \<Rightarrow> jsstring \<Rightarrow> args \<Rightarrow> network \<Rightarrow> thrown + jsstring \<times> network" where
  "switch_name e name a net =
     (if name = js ''merge_pdfs'' then
        Inr (mergePDFs e (Some (arr_or a (js ''pdfFiles'')))
               (Some (str_or a (js ''sortType'') (js ''orderProvided''))) net)
      else if name = js ''split_pdf'' then
        Inr (splitPDF e (Some (str_or a (js ''pdfFile'') []))
               (Some (str_or a (js ''pageNumbers'') [])) net)
      else if name = js ''compress_pdf'' then
        Inr (compressPDF e (Some (str_or a (js ''pdfFile'') []))
               (Some (str_or a (js ''optimizeLevel'') (js ''2''))) net)
      else if name = js ''convert_pdf_to_images'' then
        Inr (convertPDFToImages e (Some (str_or a (js ''pdfFile'') []))
               (Some (str_or a (js ''imageFormat'') (js ''png'')))
               (Some (str_or a (js ''dpi'') (js ''300''))) net)
      else if name = js ''rotate_pdf'' then
        Inr (rotatePDF e (Some (str_or a (js ''pdfFile'') []))
               (Some (str_or a (js ''angle'') (js ''90'')))
               (Some (str_or a (js ''pageNumbers'') (js ''all''))) net)
      else if name = js ''add_watermark'' then
        Inr (addWatermark e (Some (str_or a (js ''pdfFile'') []))
               (Some (str_or a (js ''watermarkText'') []))
               (Some (str_or a (js ''fontSize'') (js ''30'')))
               (Some (str_or a (js ''opacity'') (js ''0.5'')))
               (Some (str_or a (js ''rotation'') (js ''45''))) net)
      else if name = js ''remove_pages'' then
        Inr (removePages e (Some (str_or a (js ''pdfFile'') []))
               (Some (str_or a (js ''pagesToRemove'') [])) net)
      else if name = js ''extract_images'' then
        Inr (extractImages e (Some (str_or a (js ''pdfFile'') []))
               (Some (str_or a (js ''format'') (js ''png''))) net)
      else if name = js ''convert_images_to_pdf'' then
        Inr (convertImagesToPDF e (Some (arr_or a (js ''imageFiles'')))
               (Some (str_or a (js ''fitOption'') (js ''fillPage'')))
               (Some (str_or a (js ''colorType'') (js ''color''))) net)
      else if name = js ''ocr_pdf'' then
        Inr (ocrPDF e (Some (str_or a (js ''pdfFile'') []))
               (Some (str_or a (js ''languages'') (js ''eng'')))
               (Some (str_or a (js ''sidecar'') (js ''false'')))
               (Some (str_or a (js ''deskew'') (js ''false'')))
               (Some (str_or a (js ''clean'') (js ''false'')))
               (Some (str_or a (js ''cleanFinal'') (js ''false'')))
               (Some (str_or a (js ''ocrType'') (js ''skip-text''))) net)
      else Inl (JsError (js ''Unknown tool: '' @ name)))"

definition invoke :: "env \<Rightarrow> jsstring \<Rightarrow> args \<Rightarrow> network \<Rightarrow> envelope \<times> network" where
  "invoke e name a net =
     (case switch_name e name a net of
        Inr (text, net') \<Rightarrow>
          (\<lparr>content = [\<lparr>item_type = js ''text'', item_text = text\<rparr>], isError = None\<rparr>, net')
      | Inl x \<Rightarrow>
          (\<lparr>content = [\<lparr>item_type = js ''text'', item_text = formatError x\<rparr>],
            isError = Some True\<rparr>, net))"

text \<open>A text contains another when the other occurs in it as a contiguous part, and
  ends with it when nothing follows the part.\<close>

definition contains :: "jsstring \<Rightarrow> jsstring \<Rightarrow> bool" where
  "contains text part \<longleftrightarrow> (\<exists>before after. text = before @ part @ after)"

definition ends_with :: "jsstring \<Rightarrow> jsstring \<Rightarrow> bool" where
  "ends_with text tail \<longleftrightarrow> (\<exists>before. text = before @ tail)"

text \<open>An argument is blank when it is absent, empty or white space only.\<close>

definition blank :: "jsstring option \<Rightarrow> bool" where
  "blank arg \<longleftrightarrow> (case arg of None \<Rightarrow> True | Some v \<Rightarrow> trim v = [])"

text \<open>A stubbed remote service gives every request the same answer; the settings are left
  unset, and a redirect is followed to the location as it stands.\<close>

definition stub :: "reply \<Rightarrow> env" where
  "stub answer =
     \<lparr>env_url = None, env_api_key = None, boundary = js ''boundary'',
      upstream = (\<lambda>req. answer),
      redirected = (\<lambda>st location req. req\<lparr>url := location\<rparr>)\<rparr>"

section \<open>The matcher on the two expressions\<close>

lemma first_match_all_None:
  "(\<And>x. x \<in> set xs \<Longrightarrow> f x = None) \<Longrightarrow> first_match f xs = None"
  by (induction xs) auto

lemma first_match_rev_upt:
  assumes "\<And>k. 1 \<le> k \<Longrightarrow> k < n \<Longrightarrow> f k = None"
  shows "first_match f (rev [1 ..< Suc n]) = (if n = 0 then None else f n)"
proof (cases "n = 0")
  case True
  then show ?thesis by simp
next
  case False
  then have "rev [1 ..< Suc n] = n # rev [1 ..< n]" by simp
  moreover have "first_match f (rev [1 ..< n]) = None"
    by (rule first_match_all_None) (use assms in auto)
  ultimately show ?thesis using False by (simp split: option.splits)
qed

lemma match_Lit_step:
  "take (length l) s = l \<Longrightarrow> match_here (Lit l # rest) s = match_here rest (drop (length l) s)"
  by simp

lemma match_single_lit:
  "match_here [Lit l] s =
     (if take (length l) s = l then Some ([], drop (length l) s) else None)"
  by simp

lemma match_lit_plus_lit:
  assumes "\<not> p c"
  shows "match_here [Lit a, Plus p, Lit (c # b)] s =
     (if take (length a) s = a \<and> takeWhile p (drop (length a) s) \<noteq> [] \<and>
         take (Suc (length b)) (dropWhile p (drop (length a) s)) = c # b
      then Some ([takeWhile p (drop (length a) s)],
                 drop (Suc (length b)) (dropWhile p (drop (length a) s)))
      else None)"
proof (cases "take (length a) s = a")
  case False
  then show ?thesis by simp
next
  case True
  define r where "r = drop (length a) s"
  define n where "n = length (takeWhile p r)"
  define f where "f = (\<lambda>k. case match_here [Lit (c # b)] (drop k r) of
              None \<Rightarrow> None
            | Some (caps, t) \<Rightarrow> Some (take k r # caps, t))"
  have short: "f k = None" if "1 \<le> k" "k < n" for k
  proof -
    have kr: "k < length r"
      using that length_takeWhile_le[of p r] by (simp add: n_def)
    have "p (r ! k)"
      using that(2) unfolding n_def by (metis nth_mem takeWhile_nth set_takeWhileD)
    then have "r ! k \<noteq> c" using assms by auto
    moreover have "drop k r = r ! k # drop (Suc k) r"
      using kr by (simp add: Cons_nth_drop_Suc)
    ultimately have "take (Suc (length b)) (drop k r) \<noteq> c # b" by simp
    then show ?thesis by (simp add: f_def)
  qed
  have "match_here [Lit a, Plus p, Lit (c # b)] s = match_here [Plus p, Lit (c # b)] r"
    unfolding r_def using True by (rule match_Lit_step)
  also have "\<dots> = first_match f (rev [1 ..< Suc n])"
    unfolding f_def n_def by (rule match_here.simps(3))
  also have "\<dots> = (if n = 0 then None else f n)"
    using short by (rule first_match_rev_upt)
  finally have eq: "match_here [Lit a, Plus p, Lit (c # b)] s = (if n = 0 then None else f n)" .
  have tk: "take n r = takeWhile p r" and dr: "drop n r = dropWhile p r"
    by (simp_all add: n_def takeWhile_eq_take[symmetric] dropWhile_eq_drop[symmetric])
  have n0: "n = 0 \<longleftrightarrow> takeWhile p r = []" by (simp add: n_def)
  have fn: "f n = (if take (Suc (length b)) (dropWhile p r) = c # b
                   then Some ([takeWhile p r], drop (Suc (length b)) (dropWhile p r))
                   else None)"
    unfolding f_def match_single_lit dr tk by simp
  show ?thesis
    unfolding eq n0 fn using True by (simp add: r_def)
qed

lemma match_lit_plus_lit_hit:
  assumes "\<not> p c" and "m \<noteq> []" and "\<And>x. x \<in> set m \<Longrightarrow> p x"
  shows "match_here [Lit a, Plus p, Lit (c # b)] (a @ m @ (c # b) @ t) = Some ([m], t)"
proof -
  have "takeWhile p (m @ (c # b) @ t) = m" "dropWhile p (m @ (c # b) @ t) = (c # b) @ t"
    using assms by (simp_all add: takeWhile_append2 dropWhile_append2)
  then show ?thesis using assms(1,2) unfolding match_lit_plus_lit[of p c, OF assms(1)] by simp
qed

lemma match_lit_plus_lit_shape:
  assumes "\<not> p c" and "match_here [Lit a, Plus p, Lit (c # b)] s = Some (caps, t)"
  shows "\<exists>m. caps = [m] \<and> m \<noteq> [] \<and> (\<forall>x \<in> set m. p x) \<and> s = a @ m @ (c # b) @ t"
proof -
  define r where "r = drop (length a) s"
  from assms(2) have h: "take (length a) s = a" "takeWhile p r \<noteq> []"
      "take (Suc (length b)) (dropWhile p r) = c # b"
      "caps = [takeWhile p r]" "t = drop (Suc (length b)) (dropWhile p r)"
    unfolding match_lit_plus_lit[of p c, OF assms(1)] r_def by (simp_all split: if_splits)
  have "s = take (length a) s @ r" by (simp add: r_def)
  also have "r = takeWhile p r @ dropWhile p r" by simp
  also have "dropWhile p r = take (Suc (length b)) (dropWhile p r) @ t"
    unfolding h(5) by simp
  finally have "s = a @ takeWhile p r @ (c # b) @ t"
    unfolding h(1,3) by simp
  then show ?thesis using h(2,4) by (auto dest: set_takeWhileD)
qed

section \<open>Base64: decoding what was encoded\<close>

lemma base64_alphabet_arith:
  "base64_alphabet =
     map (\<lambda>n. of_nat (if n < 26 then 65 + n else if n < 52 then 71 + n
             else if n < 62 then n - 4 else if n = 62 then 43 else 47)) [0 ..< 64]"
  by code_simp

lemma b64char_arith:
  "n < 64 \<Longrightarrow> b64char n =
     of_nat (if n < 26 then 65 + n else if n < 52 then 71 + n
             else if n < 62 then n - 4 else if n = 62 then 43 else 47)"
  unfolding b64char_def base64_alphabet_arith by simp

lemma low_byte_of_nat: "k < 256 \<Longrightarrow> unat (ucast (of_nat k :: jschar) :: byte) = k"
  by (simp add: unsigned_of_nat unat_of_nat take_bit_nat_eq_self)

lemma b64char_props:
  assumes "n < 64"
  shows "unbase64 (ucast (b64char n)) = Some n" and "(ucast (b64char n) :: byte) \<noteq> 0x3D"
proof -
  define k where "k = (if n < 26 then 65 + n else if n < 52 then 71 + n
             else if n < 62 then n - 4 else if n = 62 then 43 else 47)"
  have k: "k < 256" using assms by (auto simp: k_def)
  have u: "unat (ucast (b64char n) :: byte) = k"
    using assms k by (simp add: b64char_arith k_def[symmetric] low_byte_of_nat)
  show "unbase64 (ucast (b64char n)) = Some n"
    unfolding unbase64_def u Let_def using assms by (auto simp: k_def)
  have "k \<noteq> 61" using assms by (auto simp: k_def)
  then have "unat (ucast (b64char n) :: byte) \<noteq> unat (0x3D :: byte)" using u by simp
  then show "(ucast (b64char n) :: byte) \<noteq> 0x3D" by metis
qed

lemma to_sextets_lt64: "x \<in> set (to_sextets buf) \<Longrightarrow> x < 64"
proof (induction buf arbitrary: x rule: to_sextets.induct)
  case (1 a b c rest)
  have "unat a < 256" "unat b < 256" "unat c < 256"
    using unsigned_less[of a] unsigned_less[of b] unsigned_less[of c] by simp_all
  then have "unat a div 4 < 64" "(unat a mod 4) * 16 + unat b div 16 < 64"
    "(unat b mod 16) * 4 + unat c div 64 < 64" "unat c mod 64 < 64"
    by arith+
  with 1 show ?case by auto
next
  case (2 a b)
  have "unat a < 256" "unat b < 256"
    using unsigned_less[of a] unsigned_less[of b] by simp_all
  then have "unat a div 4 < 64" "(unat a mod 4) * 16 + unat b div 16 < 64"
    "(unat b mod 16) * 4 < 64"
    by arith+
  with 2 show ?case by auto
next
  case (3 a)
  have "unat a < 256" using unsigned_less[of a] by simp
  then have "unat a div 4 < 64" "(unat a mod 4) * 16 < 64" by arith+
  with 3 show ?case by auto
next
  case 4
  then show ?case by simp
qed

lemma byte_join1: "(of_nat (unat a div 4 * 4 + ((unat a mod 4) * 16 + k) div 16) :: byte) = a"
  if "k < 16" for a :: byte
proof -
  have "((unat a mod 4) * 16 + k) div 16 = unat a mod 4" using that by simp
  then show ?thesis by simp
qed

lemma byte_join2:
  "(of_nat ((((unat a mod 4) * 16 + unat b div 16) mod 16) * 16 + ((unat b mod 16) * 4 + k) div 4) :: byte) = b"
  if "k < 4" for a b :: byte
proof -
  have "unat b < 256" using unsigned_less[of b] by simp
  then have "((unat a mod 4) * 16 + unat b div 16) mod 16 = unat b div 16" by simp
  moreover have "((unat b mod 16) * 4 + k) div 4 = unat b mod 16" using that by simp
  ultimately show ?thesis by simp
qed

lemma byte_join3:
  "(of_nat ((((unat b mod 16) * 4 + unat c div 64) mod 4) * 64 + unat c mod 64) :: byte) = c"
  for b c :: byte
proof -
  have "unat c < 256" using unsigned_less[of c] by simp
  then have "((unat b mod 16) * 4 + unat c div 64) mod 4 = unat c div 64" by simp
  then show ?thesis by simp
qed

lemma from_to_sextets: "from_sextets (to_sextets buf) = buf"
proof (induction buf rule: to_sextets.induct)
  case (1 a b c rest)
  have "unat b < 256" "unat c < 256"
    using unsigned_less[of b] unsigned_less[of c] by simp_all
  then have "unat b div 16 < 16" "unat c div 64 < 4" by arith+
  then show ?case using 1 by (simp add: byte_join1 byte_join2 byte_join3)
next
  case (2 a b)
  have "unat b < 256" using unsigned_less[of b] by simp
  then have "unat b div 16 < 16" by arith
  then show ?case using byte_join2[of 0 a b] by (simp add: byte_join1)
next
  case (3 a)
  then show ?case using byte_join1[of 0 a] by simp
next
  case 4
  then show ?case by simp
qed

lemma length_to_sextets: "length (to_sextets buf) = (length buf * 4 + 2) div 3"
  by (induction buf rule: to_sextets.induct) auto

lemma legal_sextets_encoded:
  assumes "\<And>x. x \<in> set ss \<Longrightarrow> x < 64"
  shows "legal_sextets (map b64char ss @ replicate k 0x3D) = ss"
proof -
  define cs :: "byte list" where "cs = map (\<lambda>n. ucast (b64char n)) ss"
  have cs_ok: "\<And>c. c \<in> set cs \<Longrightarrow> c \<noteq> 0x3D"
    using assms by (auto simp: cs_def b64char_props(2))
  have "map ucast (map b64char ss @ replicate k (0x3D :: jschar)) = cs @ replicate k (0x3D :: byte)"
    by (simp add: cs_def)
  moreover have "takeWhile (\<lambda>c. c \<noteq> 0x3D) (cs @ replicate k (0x3D :: byte)) = cs"
    using cs_ok by (cases k) (simp_all add: takeWhile_tail)
  moreover have "List.map_filter unbase64 cs = ss"
    unfolding cs_def using assms
    by (induction ss) (simp_all add: List.map_filter_simps b64char_props(1))
  ultimately show ?thesis by (simp only: legal_sextets_def)
qed

lemma Buffer_from_toString: "Buffer_from_base64 (toString_base64 buf) = buf"
  by (simp add: Buffer_from_base64_def toString_base64_def legal_sextets_encoded
      to_sextets_lt64 from_to_sextets)

section \<open>The data-URL prefix\<close>

lemma semicolon_base64: "js '';base64,'' = 0x3B # js ''base64,''"
  by (simp add: js_def)

lemma data_url_prefix_hit:
  assumes "m \<noteq> []" and "0x3B \<notin> set m"
  shows "match_here data_url_prefix (js ''data:'' @ m @ js '';base64,'' @ r) = Some ([m], r)"
proof -
  have "match_here [Lit (js ''data:''), Plus (\<lambda>c. c \<noteq> 0x3B), Lit (0x3B # js ''base64,'')]
          (js ''data:'' @ m @ (0x3B # js ''base64,'') @ r) = Some ([m], r)"
    by (rule match_lit_plus_lit_hit) (use assms in auto)
  then show ?thesis by (simp add: data_url_prefix_def semicolon_base64)
qed

lemma data_url_prefix_shape:
  assumes "match_here data_url_prefix s = Some (caps, r)"
  shows "\<exists>m. m \<noteq> [] \<and> 0x3B \<notin> set m \<and> s = js ''data:'' @ m @ js '';base64,'' @ r"
proof -
  have "\<exists>m. caps = [m] \<and> m \<noteq> [] \<and> (\<forall>x \<in> set m. x \<noteq> 0x3B) \<and>
          s = js ''data:'' @ m @ (0x3B # js ''base64,'') @ r"
    by (rule match_lit_plus_lit_shape[where p = "\<lambda>c. c \<noteq> 0x3B"])
       (use assms in \<open>simp_all add: data_url_prefix_def semicolon_base64\<close>)
  then show ?thesis by (auto simp: semicolon_base64)
qed

lemma strip_data_url_hit:
  "m \<noteq> [] \<Longrightarrow> 0x3B \<notin> set m \<Longrightarrow> strip_data_url (js ''data:'' @ m @ js '';base64,'' @ r) = r"
  by (simp add: strip_data_url_def data_url_prefix_hit)

lemma strip_data_url_miss:
  assumes "\<nexists>m r. m \<noteq> [] \<and> 0x3B \<notin> set m \<and> s = js ''data:'' @ m @ js '';base64,'' @ r"
  shows "strip_data_url s = s"
proof (cases "match_here data_url_prefix s")
  case None
  then show ?thesis by (simp add: strip_data_url_def)
next
  case (Some cr)
  then obtain caps r where "match_here data_url_prefix s = Some (caps, r)" by (cases cr) auto
  from data_url_prefix_shape[OF this] assms show ?thesis by blast
qed

lemma application_pdf_plain: "js ''application/pdf'' \<noteq> []" "0x3B \<notin> set (js ''application/pdf'')"
  by (simp_all add: js_def)

lemma strip_data_url_closed:
  "strip_data_url s =
     (if take 5 s = js ''data:'' \<and> takeWhile (\<lambda>c. c \<noteq> 0x3B) (drop 5 s) \<noteq> [] \<and>
         take 8 (dropWhile (\<lambda>c. c \<noteq> 0x3B) (drop 5 s)) = js '';base64,''
      then drop 8 (dropWhile (\<lambda>c. c \<noteq> 0x3B) (drop 5 s)) else s)"
proof -
  have "match_here [Lit (js ''data:''), Plus (\<lambda>c. c \<noteq> 0x3B), Lit (0x3B # js ''base64,'')] s =
     (if take (length (js ''data:'')) s = js ''data:'' \<and>
         takeWhile (\<lambda>c. c \<noteq> 0x3B) (drop (length (js ''data:'')) s) \<noteq> [] \<and>
         take (Suc (length (js ''base64,''))) (dropWhile (\<lambda>c. c \<noteq> 0x3B) (drop (length (js ''data:'')) s))
           = 0x3B # js ''base64,''
      then Some ([takeWhile (\<lambda>c. c \<noteq> 0x3B) (drop (length (js ''data:'')) s)],
                 drop (Suc (length (js ''base64,''))) (dropWhile (\<lambda>c. c \<noteq> 0x3B) (drop (length (js ''data:'')) s)))
      else None)"
    by (rule match_lit_plus_lit) simp
  moreover have "length (js ''data:'') = 5" "Suc (length (js ''base64,'')) = 8"
    by (simp_all add: js_def)
  ultimately show ?thesis
    by (simp add: strip_data_url_def data_url_prefix_def semicolon_base64)
qed

lemma data_url_shape_iff:
  "(\<exists>m r. m \<noteq> [] \<and> 0x3B \<notin> set m \<and> s = js ''data:'' @ m @ js '';base64,'' @ r)
     \<longleftrightarrow> match_here data_url_prefix s \<noteq> None"
proof
  assume "\<exists>m r. m \<noteq> [] \<and> 0x3B \<notin> set m \<and> s = js ''data:'' @ m @ js '';base64,'' @ r"
  then obtain m r where "m \<noteq> []" "0x3B \<notin> set m" "s = js ''data:'' @ m @ js '';base64,'' @ r"
    by blast
  then have "match_here data_url_prefix s = Some ([m], r)"
    using data_url_prefix_hit[of m r] by blast
  then show "match_here data_url_prefix s \<noteq> None" by simp
next
  assume "match_here data_url_prefix s \<noteq> None"
  then obtain caps r where "match_here data_url_prefix s = Some (caps, r)" by auto
  from data_url_prefix_shape[OF this] show
    "\<exists>m r. m \<noteq> [] \<and> 0x3B \<notin> set m \<and> s = js ''data:'' @ m @ js '';base64,'' @ r"
    by blast
qed

lemma data_url_prefix_closed:
  "match_here data_url_prefix s \<noteq> None \<longleftrightarrow>
     take 5 s = js ''data:'' \<and> takeWhile (\<lambda>c. c \<noteq> 0x3B) (drop 5 s) \<noteq> [] \<and>
     take 8 (dropWhile (\<lambda>c. c \<noteq> 0x3B) (drop 5 s)) = js '';base64,''"
proof -
  have "length (js ''data:'') = 5" "Suc (length (js ''base64,'')) = 8"
    by (simp_all add: js_def)
  then show ?thesis
    using match_lit_plus_lit[of "\<lambda>c. c \<noteq> 0x3B" "0x3B" "js ''data:''" "js ''base64,''" s]
    by (simp add: data_url_prefix_def semicolon_base64)
qed

lemma contains_Nil: "contains [] part \<longleftrightarrow> part = []"
  by (auto simp: contains_def)

lemma contains_Cons:
  "contains (c # cs) part \<longleftrightarrow> take (length part) (c # cs) = part \<or> contains cs part"
proof
  assume "contains (c # cs) part"
  then obtain before after where h: "c # cs = before @ part @ after" by (auto simp: contains_def)
  show "take (length part) (c # cs) = part \<or> contains cs part"
  proof (cases before)
    case Nil
    with h show ?thesis by simp
  next
    case (Cons b bs)
    with h have "cs = bs @ part @ after" by simp
    then show ?thesis by (auto simp: contains_def)
  qed
next
  assume "take (length part) (c # cs) = part \<or> contains cs part"
  then show "contains (c # cs) part"
  proof
    assume "take (length part) (c # cs) = part"
    then have "c # cs = [] @ part @ drop (length part) (c # cs)"
      by (metis append_Nil append_take_drop_id)
    then show ?thesis unfolding contains_def by blast
  next
    assume "contains cs part"
    then obtain before after where "cs = before @ part @ after" by (auto simp: contains_def)
    then have "c # cs = (c # before) @ part @ after" by simp
    then show ?thesis unfolding contains_def by blast
  qed
qed

lemma containsI: "contains (before @ part @ after) part"
  by (auto simp: contains_def)

section \<open>Running a tool: validation, then one call\<close>

text \<open>The equations of \<open>show_nat\<close> are unfolded only where a number is written out.\<close>

declare show_nat.simps [simp del]

lemma js_append: "js (a @ b) = js a @ js b"
  by (simp add: js_def)

lemma try_catch_throw:
  "try_catch (bind_io (attempt (Inl x)) k) handler net = (handler x, net)"
  by (simp add: try_catch_def bind_io_def attempt_def)

lemma bind_attempt_Inr: "bind_io (attempt (Inr v)) k = k v"
  by (rule ext) (simp add: bind_io_def attempt_def)

lemma try_catch_call:
  "try_catch (bind_io (callStirlingAPI e ep form) (\<lambda>r. return_io (g r))) handler net =
     (case callStirlingAPI e ep form net of
        (Inl x, net') \<Rightarrow> (handler x, net')
      | (Inr r, net') \<Rightarrow> (g r, net'))"
  by (simp add: try_catch_def bind_io_def return_io_def split: prod.splits sum.splits)

lemma trim_Nil: "trim [] = []"
  by (simp add: trim_def)

lemma validateRequired_absent:
  "blank arg \<Longrightarrow>
     validateRequired (Some (or_default [] arg)) name = Inl (JsError (name @ js '' is required''))"
  by (cases arg) (simp_all add: blank_def or_default_def validateRequired_def trim_Nil)

lemma validateRequired_present:
  "\<not> blank arg \<Longrightarrow> validateRequired (Some (or_default [] arg)) name = Inr (trim (or_default [] arg))"
  by (cases arg) (auto simp: blank_def or_default_def validateRequired_def trim_Nil)

lemma base64ToBuffer_Inr: "base64ToBuffer s = Inr (Buffer_from_base64 (strip_data_url s))"
  by (simp add: base64ToBuffer_def)

lemma ends_with_refl: "ends_with t t"
  by (simp add: ends_with_def)

lemma ends_with_append: "ends_with ys t \<Longrightarrow> ends_with (xs @ ys) t"
  by (auto simp: ends_with_def)

subsection \<open>What each tool does with its arguments\<close>

lemma splitPDF_blank_pdfFile:
  assumes "blank pdfFile"
  shows "splitPDF e pdfFile pageNumbers net =
       (cross_mark @ js '' Error: pdfFile is required'', net)"
  using assms
  by (simp add: splitPDF_def Let_def validateRequired_absent validateRequired_present
      bind_attempt_Inr try_catch_throw formatError_def js_def)

lemma splitPDF_blank_pageNumbers:
  assumes "\<not> blank pdfFile" and "blank pageNumbers"
  shows "splitPDF e pdfFile pageNumbers net =
       (cross_mark @ js '' Error: pageNumbers is required'', net)"
  using assms
  by (simp add: splitPDF_def Let_def validateRequired_absent validateRequired_present
      bind_attempt_Inr try_catch_throw formatError_def js_def)

lemma splitPDF_run:
  assumes "\<not> blank pdfFile" and "\<not> blank pageNumbers"
  shows "splitPDF e pdfFile pageNumbers net =
     (case callStirlingAPI e (js ''/api/v1/general/split-pages'')
         [FilePart (js ''fileInput'') (Buffer_from_base64 (strip_data_url (or_default [] pdfFile)))
            (js ''input.pdf''),
          FieldPart (js ''pageNumbers'') (or_default [] pageNumbers)] net of
        (Inl x, net') \<Rightarrow> (formatError x, net')
      | (Inr r, net') \<Rightarrow>
          (check_mark @ js '' Successfully split PDF at pages: '' @ (or_default [] pageNumbers) @
           nl @ nl @ package_icon @ js '' Result (ZIP file as base64 data URL):'' @ nl @
           bufferToBase64DataUrl r (Some (js ''application/zip'')), net'))"
  using assms
  by (simp add: splitPDF_def Let_def validateRequired_present bind_attempt_Inr
      base64ToBuffer_Inr try_catch_call append_file_def append_field_def)

lemma compressPDF_blank_pdfFile:
  assumes "blank pdfFile"
  shows "compressPDF e pdfFile optimizeLevel net =
       (cross_mark @ js '' Error: pdfFile is required'', net)"
  using assms
  by (simp add: compressPDF_def Let_def validateRequired_absent validateRequired_present
      bind_attempt_Inr try_catch_throw formatError_def js_def)

lemma compressPDF_run:
  assumes "\<not> blank pdfFile"
  shows "compressPDF e pdfFile optimizeLevel net =
     (case callStirlingAPI e (js ''/api/v1/misc/compress-pdf'')
         [FilePart (js ''fileInput'') (Buffer_from_base64 (strip_data_url (or_default [] pdfFile)))
            (js ''input.pdf''),
          FieldPart (js ''optimizeLevel'') (or_default (js ''2'') optimizeLevel),
          FieldPart (js ''fastWebView'') (js ''false'')] net of
        (Inl x, net') \<Rightarrow> (formatError x, net')
      | (Inr r, net') \<Rightarrow>
          (check_mark @ js '' Successfully compressed PDF (optimization level: '' @
           (or_default (js ''2'') optimizeLevel) @ js '')'' @ nl @ nl @ page_icon @
           js '' Result (base64 data URL):'' @ nl @
           bufferToBase64DataUrl r None, net'))"
  using assms
  by (simp add: compressPDF_def Let_def validateRequired_present bind_attempt_Inr
      base64ToBuffer_Inr try_catch_call append_file_def append_field_def)

lemma convertPDFToImages_blank_pdfFile:
  assumes "blank pdfFile"
  shows "convertPDFToImages e pdfFile imageFormat dpi net =
       (cross_mark @ js '' Error: pdfFile is required'', net)"
  using assms
  by (simp add: convertPDFToImages_def Let_def validateRequired_absent validateRequired_present
      bind_attempt_Inr try_catch_throw formatError_def js_def)

lemma convertPDFToImages_run:
  assumes "\<not> blank pdfFile"
  shows "convertPDFToImages e pdfFile imageFormat dpi net =
     (case callStirlingAPI e (js ''/api/v1/convert/pdf/img'')
         [FilePart (js ''fileInput'') (Buffer_from_base64 (strip_data_url (or_default [] pdfFile)))
            (js ''input.pdf''),
          FieldPart (js ''imageFormat'') (or_default (js ''png'') imageFormat),
          FieldPart (js ''dpi'') (or_default (js ''300'') dpi),
          FieldPart (js ''colorType'') (js ''color''),
          FieldPart (js ''singleOrMultiple'') (js ''multiple'')] net of
        (Inl x, net') \<Rightarrow> (formatError x, net')
      | (Inr r, net') \<Rightarrow>
          (check_mark @ js '' Successfully converted PDF to '' @
           (or_default (js ''png'') imageFormat) @ js '' images'' @
           nl @ nl @ package_icon @ js '' Result (ZIP file as base64 data URL):'' @ nl @
           bufferToBase64DataUrl r (Some (js ''application/zip'')), net'))"
  using assms
  by (simp add: convertPDFToImages_def Let_def validateRequired_present bind_attempt_Inr
      base64ToBuffer_Inr try_catch_call append_file_def append_field_def)

lemma rotatePDF_blank_pdfFile:
  assumes "blank pdfFile"
  shows "rotatePDF e pdfFile angle pageNumbers net =
       (cross_mark @ js '' Error: pdfFile is required'', net)"
  using assms
  by (simp add: rotatePDF_def Let_def validateRequired_absent validateRequired_present
      bind_attempt_Inr try_catch_throw formatError_def js_def)

lemma rotatePDF_run:
  assumes "\<not> blank pdfFile"
  shows "rotatePDF e pdfFile angle pageNumbers net =
     (case callStirlingAPI e (js ''/api/v1/general/rotate-pdf'')
         [FilePart (js ''fileInput'') (Buffer_from_base64 (strip_data_url (or_default [] pdfFile)))
            (js ''input.pdf''),
          FieldPart (js ''angle'') (or_default (js ''90'') angle),
          FieldPart (js ''pageNumbers'') (or_default (js ''all'') pageNumbers)] net of
        (Inl x, net') \<Rightarrow> (formatError x, net')
      | (Inr r, net') \<Rightarrow>
          (check_mark @ js '' Successfully rotated PDF pages by '' @
           (or_default (js ''90'') angle) @ degree_sign @
           nl @ nl @ page_icon @ js '' Result (base64 data URL):'' @ nl @
           bufferToBase64DataUrl r None, net'))"
  using assms
  by (simp add: rotatePDF_def Let_def validateRequired_present bind_attempt_Inr
      base64ToBuffer_Inr try_catch_call append_file_def append_field_def)

lemma addWatermark_blank_pdfFile:
  assumes "blank pdfFile"
  shows "addWatermark e pdfFile watermarkText fontSize opacity rotation net =
       (cross_mark @ js '' Error: pdfFile is required'', net)"
  using assms
  by (simp add: addWatermark_def Let_def validateRequired_absent validateRequired_present
      bind_attempt_Inr try_catch_throw formatError_def js_def)

lemma addWatermark_blank_watermarkText:
  assumes "\<not> blank pdfFile" and "blank watermarkText"
  shows "addWatermark e pdfFile watermarkText fontSize opacity rotation net =
       (cross_mark @ js '' Error: watermarkText is required'', net)"
  using assms
  by (simp add: addWatermark_def Let_def validateRequired_absent validateRequired_present
      bind_attempt_Inr try_catch_throw formatError_def js_def)

lemma addWatermark_run:
  assumes "\<not> blank pdfFile" and "\<not> blank watermarkText"
  shows "addWatermark e pdfFile watermarkText fontSize opacity rotation net =
     (case callStirlingAPI e (js ''/api/v1/security/add-watermark'')
         [FilePart (js ''fileInput'') (Buffer_from_base64 (strip_data_url (or_default [] pdfFile)))
            (js ''input.pdf''),
          FieldPart (js ''watermarkType'') (js ''text''),
          FieldPart (js ''watermarkText'') (or_default [] watermarkText),
          FieldPart (js ''alphabet'') (js ''roman''),
          FieldPart (js ''fontSize'') (or_default (js ''30'') fontSize),
          FieldPart (js ''rotation'') (or_default (js ''45'') rotation),
          FieldPart (js ''opacity'') (or_default (js ''0.5'') opacity),
          FieldPart (js ''widthSpacer'') (js ''50''),
          FieldPart (js ''heightSpacer'') (js ''50''),
          FieldPart (js ''customColor'') (js ''#000000'')] net of
        (Inl x, net') \<Rightarrow> (formatError x, net')
      | (Inr r, net') \<Rightarrow>
          (check_mark @ js '' Successfully added watermark: '' @ dquote @
           (or_default [] watermarkText) @ dquote @
           nl @ nl @ page_icon @ js '' Result (base64 data URL):'' @ nl @
           bufferToBase64DataUrl r None, net'))"
  using assms
  by (simp add: addWatermark_def Let_def validateRequired_present bind_attempt_Inr
      base64ToBuffer_Inr try_catch_call append_file_def append_field_def)

lemma removePages_blank_pdfFile:
  assumes "blank pdfFile"
  shows "removePages e pdfFile pagesToRemove net =
       (cross_mark @ js '' Error: pdfFile is required'', net)"
  using assms
  by (simp add: removePages_def Let_def validateRequired_absent validateRequired_present
      bind_attempt_Inr try_catch_throw formatError_def js_def)

lemma removePages_blank_pagesToRemove:
  assumes "\<not> blank pdfFile" and "blank pagesToRemove"
  shows "removePages e pdfFile pagesToRemove net =
       (cross_mark @ js '' Error: pagesToRemove is required'', net)"
  using assms
  by (simp add: removePages_def Let_def validateRequired_absent validateRequired_present
      bind_attempt_Inr try_catch_throw formatError_def js_def)

lemma removePages_run:
  assumes "\<not> blank pdfFile" and "\<not> blank pagesToRemove"
  shows "removePages e pdfFile pagesToRemove net =
     (case callStirlingAPI e (js ''/api/v1/general/remove-pages'')
         [FilePart (js ''fileInput'') (Buffer_from_base64 (strip_data_url (or_default [] pdfFile)))
            (js ''input.pdf''),
          FieldPart (js ''pagesToDelete'') (or_default [] pagesToRemove)] net of
        (Inl x, net') \<Rightarrow> (formatError x, net')
      | (Inr r, net') \<Rightarrow>
          (check_mark @ js '' Successfully removed pages: '' @ (or_default [] pagesToRemove) @
           nl @ nl @ page_icon @ js '' Result (base64 data URL):'' @ nl @
           bufferToBase64DataUrl r None, net'))"
  using assms
  by (simp add: removePages_def Let_def validateRequired_present bind_attempt_Inr
      base64ToBuffer_Inr try_catch_call append_file_def append_field_def)

lemma extractImages_blank_pdfFile:
  assumes "blank pdfFile"
  shows "extractImages e pdfFile format net =
       (cross_mark @ js '' Error: pdfFile is required'', net)"
  using assms
  by (simp add: extractImages_def Let_def validateRequired_absent validateRequired_present
      bind_attempt_Inr try_catch_throw formatError_def js_def)

lemma extractImages_run:
  assumes "\<not> blank pdfFile"
  shows "extractImages e pdfFile format net =
     (case callStirlingAPI e (js ''/api/v1/general/extract-images'')
         [FilePart (js ''fileInput'') (Buffer_from_base64 (strip_data_url (or_default [] pdfFile)))
            (js ''input.pdf''),
          FieldPart (js ''format'') (or_default (js ''png'') format)] net of
        (Inl x, net') \<Rightarrow> (formatError x, net')
      | (Inr r, net') \<Rightarrow>
          (check_mark @ js '' Successfully extracted images from PDF'' @
           nl @ nl @ package_icon @ js '' Result (ZIP file as base64 data URL):'' @ nl @
           bufferToBase64DataUrl r (Some (js ''application/zip'')), net'))"
  using assms
  by (simp add: extractImages_def Let_def validateRequired_present bind_attempt_Inr
      base64ToBuffer_Inr try_catch_call append_file_def append_field_def)

lemma foldl_append_field:
  "foldl (\<lambda>fd lang. fd @ [FieldPart name lang]) formData langs
     = formData @ map (FieldPart name) langs"
  by (induction langs arbitrary: formData) simp_all

lemma ocrPDF_blank_pdfFile:
  assumes "blank pdfFile"
  shows "ocrPDF e pdfFile languages sidecar deskew clean cleanFinal ocrType net =
     (cross_mark @ js '' Error: pdfFile is required'', net)"
  using assms
  by (simp add: ocrPDF_def Let_def validateRequired_absent validateRequired_present
      bind_attempt_Inr try_catch_throw formatError_def js_def)

lemma ocrPDF_run:
  assumes "\<not> blank pdfFile"
  shows "ocrPDF e pdfFile languages sidecar deskew clean cleanFinal ocrType net =
     (case callStirlingAPI e (js ''/api/v1/misc/ocr-pdf'')
         ([FilePart (js ''fileInput'') (Buffer_from_base64 (strip_data_url (or_default [] pdfFile)))
            (js ''input.pdf'')] @
          map (FieldPart (js ''languages''))
            (map trim (split_on 0x2C (or_default (js ''eng'') languages))) @
          [FieldPart (js ''sidecar'') (or_default (js ''false'') sidecar),
           FieldPart (js ''deskew'') (or_default (js ''false'') deskew),
           FieldPart (js ''clean'') (or_default (js ''false'') clean),
           FieldPart (js ''cleanFinal'') (or_default (js ''false'') cleanFinal),
           FieldPart (js ''ocrType'') (or_default (js ''skip-text'') ocrType)]) net of
        (Inl x, net') \<Rightarrow> (formatError x, net')
      | (Inr r, net') \<Rightarrow>
          (check_mark @ js '' Successfully performed OCR on PDF'' @ nl @ js ''Languages: '' @
           or_default (js ''eng'') languages @ nl @ nl @ page_icon @
           js '' Result (base64 data URL):'' @ nl @ bufferToBase64DataUrl r None, net'))"
  using assms
  by (simp add: ocrPDF_def Let_def validateRequired_present bind_attempt_Inr
      base64ToBuffer_Inr try_catch_call append_file_def append_field_def foldl_append_field)

lemma forEach_append_files:
  "forEach (\<lambda>item index formData.
              case base64ToBuffer item of
                Inl x \<Rightarrow> Inl x
              | Inr buf \<Rightarrow> Inr (append_file formData field buf (filename item index)))
     items start formData
   = Inr (formData @
          map (\<lambda>(index, item).
                 FilePart field (Buffer_from_base64 (strip_data_url item)) (filename item index))
            (enumerate start items))"
  by (induction items arbitrary: start formData)
     (simp_all add: base64ToBuffer_Inr append_file_def)

lemma mergePDFs_few:
  assumes "length (or_default [] pdfFiles) < 2"
  shows "mergePDFs e pdfFiles sortType net =
     (cross_mark @ js '' Error: At least 2 PDF files are required for merging'', net)"
  using assms
  by (simp add: mergePDFs_def Let_def try_catch_throw formatError_def js_def)

lemma mergePDFs_run:
  assumes "2 \<le> length (or_default [] pdfFiles)"
  shows "mergePDFs e pdfFiles sortType net =
     (case callStirlingAPI e (js ''/api/v1/general/merge-pdfs'')
         (map (\<lambda>(index, base64Pdf).
                 FilePart (js ''fileInput'') (Buffer_from_base64 (strip_data_url base64Pdf))
                   (js ''file'' @ show_nat (index + 1) @ js ''.pdf''))
            (enumerate 0 (or_default [] pdfFiles)) @
          [FieldPart (js ''sortType'') (or_default (js ''orderProvided'') sortType)]) net of
        (Inl x, net') \<Rightarrow> (formatError x, net')
      | (Inr r, net') \<Rightarrow>
          (check_mark @ js '' Successfully merged '' @ show_nat (length (or_default [] pdfFiles)) @
           js '' PDF files'' @ nl @ nl @ page_icon @ js '' Result (base64 data URL):'' @ nl @
           bufferToBase64DataUrl r None, net'))"
proof -
  have "\<not> length (or_default [] pdfFiles) < 2" using assms by simp
  then show ?thesis
    by (simp add: mergePDFs_def Let_def bind_attempt_Inr try_catch_call append_field_def
        forEach_append_files[where filename = "\<lambda>item index. js ''file'' @ show_nat (index + 1) @ js ''.pdf''"])
qed

lemma forEach_append_images:
  "forEach (\<lambda>base64Image index formData.
              case base64ToBuffer base64Image of
                Inl x \<Rightarrow> Inl x
              | Inr buf \<Rightarrow>
                  (let formatMatch = match_image_format base64Image;
                       ext = (case formatMatch of None \<Rightarrow> js ''png'' | Some groups \<Rightarrow> groups ! 0)
                   in Inr (append_file formData field buf
                            (js ''image'' @ show_nat (index + 1) @ js ''.'' @ ext))))
     items start formData
   = Inr (formData @
          map (\<lambda>(index, base64Image).
                 FilePart field (Buffer_from_base64 (strip_data_url base64Image))
                   (js ''image'' @ show_nat (index + 1) @ js ''.'' @
                    (case match_image_format base64Image of
                       None \<Rightarrow> js ''png''
                     | Some groups \<Rightarrow> groups ! 0)))
            (enumerate start items))"
  by (induction items arbitrary: start formData)
     (simp_all add: base64ToBuffer_Inr append_file_def Let_def)

lemma convertImagesToPDF_none:
  assumes "or_default [] imageFiles = []"
  shows "convertImagesToPDF e imageFiles fitOption colorType net =
     (cross_mark @ js '' Error: At least 1 image file is required'', net)"
  using assms
  by (simp add: convertImagesToPDF_def Let_def try_catch_throw formatError_def js_def)

lemma convertImagesToPDF_run:
  assumes "or_default [] imageFiles \<noteq> []"
  shows "convertImagesToPDF e imageFiles fitOption colorType net =
     (case callStirlingAPI e (js ''/api/v1/convert/img/pdf'')
         (map (\<lambda>(index, base64Image).
                 FilePart (js ''fileInput'') (Buffer_from_base64 (strip_data_url base64Image))
                   (js ''image'' @ show_nat (index + 1) @ js ''.'' @
                    (case match_image_format base64Image of
                       None \<Rightarrow> js ''png''
                     | Some groups \<Rightarrow> groups ! 0)))
            (enumerate 0 (or_default [] imageFiles)) @
          [FieldPart (js ''fitOption'') (or_default (js ''fillPage'') fitOption),
           FieldPart (js ''colorType'') (or_default (js ''color'') colorType),
           FieldPart (js ''autoRotate'') (js ''false'')]) net of
        (Inl x, net') \<Rightarrow> (formatError x, net')
      | (Inr r, net') \<Rightarrow>
          (check_mark @ js '' Successfully converted '' @
           show_nat (length (or_default [] imageFiles)) @ js '' images to PDF'' @ nl @ nl @
           page_icon @ js '' Result (base64 data URL):'' @ nl @ bufferToBase64DataUrl r None, net'))"
  using assms
  by (simp add: convertImagesToPDF_def Let_def bind_attempt_Inr try_catch_call append_field_def
      forEach_append_images)

subsection \<open>What the client makes of the answer\<close>

lemma utf8_points_Cons: "utf8_points (a # bs) \<noteq> []"
  by (simp split: list.splits)

lemma utf16_units_nonempty: "utf16_units cp \<noteq> []"
  by (simp add: utf16_units_def)

lemma toString_utf8_empty: "toString_utf8 payload = [] \<longleftrightarrow> payload = []"
proof (cases payload)
  case Nil
  then show ?thesis by (simp add: toString_utf8_def)
next
  case (Cons a bs)
  then obtain p ps where "utf8_points (map unat payload) = p # ps"
    using utf8_points_Cons[of "unat a" "map unat bs"] by (cases "utf8_points (map unat payload)") auto
  then show ?thesis using Cons utf16_units_nonempty[of p] by (simp add: toString_utf8_def)
qed

lemma toString_utf8_boom: "toString_utf8 [0x62, 0x6F, 0x6F, 0x6D] = js ''boom''"
  by (simp add: toString_utf8_def utf16_units_def js_def)

lemma follow_settled:
  assumes "\<And>req. upstream e req = Response st reason location payload"
    and "\<not> follows_redirect st location"
  shows "follow e budget req = settle st reason payload"
  using assms by (cases budget) simp_all

lemma follow_no_response:
  assumes "\<And>req. upstream e req = NoResponse cause"
  shows "follow e budget req = AxiosError cause None"
  using assms by (cases budget) simp_all

lemma follow_redirect_loop:
  assumes "\<And>req. upstream e req = Response st reason location payload"
    and "follows_redirect st location"
  shows "follow e budget req = AxiosError (js ''Maximum number of redirects exceeded'') None"
  using assms by (induction budget arbitrary: req) simp_all

lemma not_followed_2xx: "200 \<le> st \<Longrightarrow> st < 300 \<Longrightarrow> \<not> follows_redirect st location"
  by (simp add: follows_redirect_def)

lemma callStirlingAPI_fulfilled:
  assumes "\<And>req. upstream e req = Response st reason location payload"
    and "200 \<le> st" and "st < 300"
  shows "\<exists>req. callStirlingAPI e ep form net = (Inr payload, net @ [req]) \<and> body req = form \<and>
     url req = STIRLING_PDF_URL e @ ep"
  using assms(2,3)
  by (simp add: callStirlingAPI_def axios_post_def Let_def settle_def
      follow_settled[OF assms(1) not_followed_2xx[OF assms(2,3)]])

lemma callStirlingAPI_rejected:
  assumes "\<And>req. upstream e req = Response st reason location payload"
    and "\<not> (200 \<le> st \<and> st < 300)" and "st \<noteq> 0" and "\<not> follows_redirect st location"
  shows "\<exists>req. callStirlingAPI e ep form net =
       (Inl (JsError (js ''Stirling PDF API returned '' @ show_nat st @ js '': '' @
                      (if payload \<noteq> [] then toString_utf8 payload
                       else if reason \<noteq> [] then reason else js ''Unknown Error''))),
        net @ [req]) \<and> body req = form \<and> url req = STIRLING_PDF_URL e @ ep"
  using assms(2,3)
  by (auto simp: callStirlingAPI_def axios_post_def Let_def settle_def toString_utf8_empty
      follow_settled[OF assms(1,4)])

lemma callStirlingAPI_no_response:
  assumes "\<And>req. upstream e req = NoResponse cause"
  shows "\<exists>req. callStirlingAPI e ep form net =
       (Inl (JsError (js ''Stirling PDF API returned unknown: Unknown Error'')), net @ [req]) \<and>
       body req = form \<and> url req = STIRLING_PDF_URL e @ ep"
  by (simp add: callStirlingAPI_def axios_post_def Let_def js_def follow_no_response[OF assms])

lemma callStirlingAPI_redirect_loop:
  assumes "\<And>req. upstream e req = Response st reason location payload"
    and "follows_redirect st location"
  shows "\<exists>req. callStirlingAPI e ep form net =
       (Inl (JsError (js ''Stirling PDF API returned unknown: Unknown Error'')), net @ [req]) \<and>
       body req = form \<and> url req = STIRLING_PDF_URL e @ ep"
  by (simp add: callStirlingAPI_def axios_post_def Let_def js_def follow_redirect_loop[OF assms])

lemma callStirlingAPI_one_request:
  "\<exists>req. snd (callStirlingAPI e ep form net) = net @ [req] \<and> body req = form \<and>
         url req = STIRLING_PDF_URL e @ ep"
  by (simp add: callStirlingAPI_def Let_def)

lemma upstream_stub: "upstream (stub answer) req = answer"
  by (simp add: stub_def)

lemma show_nat_digit: "n < 10 \<Longrightarrow> show_nat n = [of_nat (48 + n)]"
  by (simp add: show_nat.simps)

lemma show_nat_500: "show_nat 500 = js ''500''"
  by (simp add: show_nat.simps[of 500] show_nat.simps[of 50] show_nat_digit js_def)

lemma data_url_pdf:
  "bufferToBase64DataUrl r None = js ''data:application/pdf;base64,'' @ toString_base64 r"
  by (simp add: bufferToBase64DataUrl_def js_def)

lemma data_url_zip:
  "bufferToBase64DataUrl r (Some (js ''application/zip''))
     = js ''data:application/zip;base64,'' @ toString_base64 r"
  by (simp add: bufferToBase64DataUrl_def js_def)

subsection \<open>File names, one request, and the three kinds of answer\<close>

lemma semicolon_only: "js '';'' = [0x3B]"
  by (simp add: js_def)

lemma semicolon_not_word: "\<not> is_word_char 0x3B"
  by (simp add: is_word_char_def)

lemma match_image_format_hit:
  assumes "fmt \<noteq> []" and "\<forall>c \<in> set fmt. is_word_char c"
  shows "match_image_format (js ''data:image/'' @ fmt @ js '';'' @ rest) = Some [fmt]"
proof -
  have "match_here [Lit (js ''data:image/''), Plus is_word_char, Lit [0x3B]]
          (js ''data:image/'' @ fmt @ [0x3B] @ rest) = Some ([fmt], rest)"
    by (rule match_lit_plus_lit_hit) (use assms semicolon_not_word in auto)
  then show ?thesis by (simp add: match_image_format_def image_format_def semicolon_only)
qed

lemma match_image_format_shape:
  assumes "match_image_format s = Some groups"
  shows "\<exists>fmt rest. groups = [fmt] \<and> fmt \<noteq> [] \<and> (\<forall>c \<in> set fmt. is_word_char c) \<and>
           s = js ''data:image/'' @ fmt @ js '';'' @ rest"
proof -
  from assms obtain rest where
    "match_here [Lit (js ''data:image/''), Plus is_word_char, Lit [0x3B]] s = Some (groups, rest)"
    by (auto simp: match_image_format_def image_format_def semicolon_only)
  from match_lit_plus_lit_shape[OF semicolon_not_word this]
  show ?thesis by (auto simp: semicolon_only)
qed

lemma match_image_format_closed:
  "match_image_format s =
     (if take 11 s = js ''data:image/'' \<and> takeWhile is_word_char (drop 11 s) \<noteq> [] \<and>
         take 1 (dropWhile is_word_char (drop 11 s)) = js '';''
      then Some [takeWhile is_word_char (drop 11 s)] else None)"
proof -
  have "length (js ''data:image/'') = 11" by (simp add: js_def)
  then show ?thesis
    using match_lit_plus_lit[of is_word_char "0x3B" "js ''data:image/''" "[]" s, OF semicolon_not_word]
    by (simp add: match_image_format_def image_format_def semicolon_only)
qed

lemma image_ext_present:
  assumes "fmt \<noteq> []" and "\<forall>c \<in> set fmt. is_word_char c"
    and "s = js ''data:image/'' @ fmt @ js '';'' @ rest"
  shows "(case match_image_format s of None \<Rightarrow> js ''png'' | Some groups \<Rightarrow> groups ! 0) = fmt"
  using match_image_format_hit[OF assms(1,2), of rest] assms(3) by simp

lemma image_ext_absent:
  assumes "\<nexists>fmt rest. fmt \<noteq> [] \<and> (\<forall>c \<in> set fmt. is_word_char c) \<and>
             s = js ''data:image/'' @ fmt @ js '';'' @ rest"
  shows "(case match_image_format s of None \<Rightarrow> js ''png'' | Some groups \<Rightarrow> groups ! 0) = js ''png''"
proof (cases "match_image_format s")
  case None
  then show ?thesis by simp
next
  case (Some groups)
  from match_image_format_shape[OF this] assms show ?thesis by blast
qed

lemma run_snd:
  "snd (case callStirlingAPI e ep form net of
          (Inl x, net') \<Rightarrow> (f x, net')
        | (Inr r, net') \<Rightarrow> (g r, net')) = snd (callStirlingAPI e ep form net)"
  by (simp split: prod.splits sum.splits)

lemma run_one_request:
  "\<exists>text req. (case callStirlingAPI e ep form net of
          (Inl x, net') \<Rightarrow> (f x, net')
        | (Inr r, net') \<Rightarrow> (g r, net')) = (text, net @ [req]) \<and> body req = form"
proof -
  obtain req where "snd (callStirlingAPI e ep form net) = net @ [req]" "body req = form"
    using callStirlingAPI_one_request by blast
  then show ?thesis
    by (cases "callStirlingAPI e ep form net") (auto split: sum.splits)
qed

lemma run_one_requestE:
  assumes "out = (case callStirlingAPI e ep form net of
          (Inl x, net') \<Rightarrow> (f x, net')
        | (Inr r, net') \<Rightarrow> (g r, net'))"
  shows "\<exists>shown req. out = (shown, net @ [req]) \<and> body req = form"
  unfolding assms by (rule run_one_request)

lemma show_nat_1: "show_nat 1 = js ''1''" and show_nat_2: "show_nat 2 = js ''2''"
  by (simp_all add: show_nat_digit js_def)

lemma error_prefix:
  "js '' Error: '' @ js ''Stirling PDF API returned '' @ t = js '' Error: Stirling PDF API returned '' @ t"
  by (simp add: js_def)

lemma run_rejected:
  assumes "out = (case callStirlingAPI e ep form net of
          (Inl x, net') \<Rightarrow> (formatError x, net')
        | (Inr r, net') \<Rightarrow> (g r, net'))"
    and "\<And>req. upstream e req = Response st reason location payload"
    and "\<not> (200 \<le> st \<and> st < 300)" and "st \<noteq> 0" and "\<not> follows_redirect st location"
  shows "fst out = cross_mark @ js '' Error: Stirling PDF API returned '' @ show_nat st @ js '': '' @
           (if payload \<noteq> [] then toString_utf8 payload
            else if reason \<noteq> [] then reason else js ''Unknown Error'')"
proof -
  obtain req where "callStirlingAPI e ep form net =
       (Inl (JsError (js ''Stirling PDF API returned '' @ show_nat st @ js '': '' @
                      (if payload \<noteq> [] then toString_utf8 payload
                       else if reason \<noteq> [] then reason else js ''Unknown Error''))),
        net @ [req])"
    using callStirlingAPI_rejected[OF assms(2,3,4,5)] by blast
  then show ?thesis
    unfolding assms(1) by (simp add: formatError_def error_prefix)
qed

lemma run_fulfilled:
  assumes "out = (case callStirlingAPI e ep form net of
          (Inl x, net') \<Rightarrow> (formatError x, net')
        | (Inr r, net') \<Rightarrow> (g r, net'))"
    and "\<And>req. upstream e req = Response st reason location payload"
    and "200 \<le> st" and "st < 300"
  shows "fst out = g payload"
proof -
  obtain req where "callStirlingAPI e ep form net = (Inr payload, net @ [req])"
    using callStirlingAPI_fulfilled[OF assms(2,3,4)] by blast
  then show ?thesis unfolding assms(1) by simp
qed

lemma run_no_response:
  assumes "out = (case callStirlingAPI e ep form net of
          (Inl x, net') \<Rightarrow> (formatError x, net')
        | (Inr r, net') \<Rightarrow> (g r, net'))"
    and "\<And>req. upstream e req = NoResponse cause"
  shows "fst out = cross_mark @ js '' Error: Stirling PDF API returned unknown: Unknown Error''"
proof -
  obtain req where "callStirlingAPI e ep form net =
       (Inl (JsError (js ''Stirling PDF API returned unknown: Unknown Error'')), net @ [req])"
    using callStirlingAPI_no_response[OF assms(2)] by blast
  then show ?thesis
    unfolding assms(1) by (simp add: formatError_def js_def)
qed

lemma run_redirect_loop:
  assumes "out = (case callStirlingAPI e ep form net of
          (Inl x, net') \<Rightarrow> (formatError x, net')
        | (Inr r, net') \<Rightarrow> (g r, net'))"
    and "\<And>req. upstream e req = Response st reason location payload"
    and "follows_redirect st location"
  shows "fst out = cross_mark @ js '' Error: Stirling PDF API returned unknown: Unknown Error''"
proof -
  obtain req where "callStirlingAPI e ep form net =
       (Inl (JsError (js ''Stirling PDF API returned unknown: Unknown Error'')), net @ [req])"
    using callStirlingAPI_redirect_loop[OF assms(2,3)] by blast
  then show ?thesis
    unfolding assms(1) by (simp add: formatError_def js_def)
qed

lemma not_blank_files: "2 \<le> length pdfFiles \<Longrightarrow> 2 \<le> length (or_default [] (Some pdfFiles))"
  and not_blank_images: "imageFiles \<noteq> [] \<Longrightarrow> or_default [] (Some imageFiles) \<noteq> []"
  by (simp_all add: or_default_def)

lemma ends_with_pdf:
  assumes "ends_with t (bufferToBase64DataUrl r None)"
  shows "ends_with t (js ''data:application/pdf;base64,'' @ toString_base64 r)"
  using assms by (simp add: data_url_pdf)

lemma ends_with_zip:
  assumes "ends_with t (bufferToBase64DataUrl r (Some (js ''application/zip'')))"
  shows "ends_with t (js ''data:application/zip;base64,'' @ toString_base64 r)"
  using assms by (simp add: data_url_zip)

text \<open>Sample arguments and stubs.\<close>

lemma boom_stub:
  "upstream (stub (Response 500 (js ''Internal Server Error'') [] [0x62, 0x6F, 0x6F, 0x6D])) req
     = Response 500 (js ''Internal Server Error'') [] [0x62, 0x6F, 0x6F, 0x6D]"
  by (rule upstream_stub)

lemma moved_stub:
  "upstream (stub (Response 302 (js ''Found'') (js ''/login'') [0x6D, 0x6F, 0x76, 0x65, 0x64])) req
     = Response 302 (js ''Found'') (js ''/login'') [0x6D, 0x6F, 0x76, 0x65, 0x64]"
  by (rule upstream_stub)

lemma moved_followed: "follows_redirect 302 (js ''/login'')"
  by (simp add: follows_redirect_def js_def)

lemma boom_not_followed: "\<not> follows_redirect 500 []"
  by (simp add: follows_redirect_def)

lemma present_pdf: "\<not> blank (Some (js ''JVBERg==''))"
  by (simp add: blank_def trim_def is_js_space_def js_def)

lemma zip_stub:
  "upstream (stub (Response 200 (js ''OK'') [] [0x50, 0x4B])) req = Response 200 (js ''OK'') [] [0x50, 0x4B]"
  by (rule upstream_stub)

lemma present_pages: "\<not> blank (Some (js ''2''))"
  by (simp add: blank_def trim_def is_js_space_def js_def)

lemma base64_PK: "toString_base64 [0x50, 0x4B] = js ''UEs=''"
  by (simp add: toString_base64_def b64char_def base64_alphabet_def js_def)

lemma blank_examples: "blank None" "blank (Some [])" "blank (Some (js ''   ''))"
  by (simp_all add: blank_def trim_def is_js_space_def js_def)

section \<open>Codec: round trip, prefix and lenient decoding\<close>

text \<open>
  C1. Decoding the data URL that \<open>bufferToBase64DataUrl\<close> produces gives the bytes
  back, for the default media type and for every explicit media type that is not empty
  and has no semicolon in it.
\<close>

theorem roundtrip_data_url:
  "base64ToBuffer (bufferToBase64DataUrl B None) = Inr B \<and>
   (M \<noteq> [] \<and> 0x3B \<notin> set M \<longrightarrow> base64ToBuffer (bufferToBase64DataUrl B (Some M)) = Inr B)"
  by (simp add: base64ToBuffer_def bufferToBase64DataUrl_def strip_data_url_hit
      application_pdf_plain Buffer_from_toString)

theorem roundtrip_data_url_witness:
  "base64ToBuffer (bufferToBase64DataUrl [0x25, 0x50, 0x44, 0x46] (Some (js ''application/zip'')))
     = Inr [0x25, 0x50, 0x44, 0x46]"
  using roundtrip_data_url[of "[0x25, 0x50, 0x44, 0x46]" "js ''application/zip''"]
  by (simp add: js_def)

text \<open>
  C1, for any explicit media type: with a media type that carries a parameter, the
  prefix is not removed and the decoder reads the letters of the whole data URL; one
  byte comes back as fifteen.
\<close>

theorem roundtrip_parameterised_media_type_counterexample:
  "base64ToBuffer (bufferToBase64DataUrl [0x41] (Some (js ''text/plain;charset=utf-8'')))
     = Inr [0x75, 0xAB, 0x5A, 0xB5, 0xEC, 0x6D, 0xFE, 0x99, 0x5A, 0x8A, 0x77, 0x21, 0x6A, 0xBB, 0x1E]
   \<and> base64ToBuffer (bufferToBase64DataUrl [0x41] (Some (js ''text/plain;charset=utf-8'')))
     \<noteq> Inr [0x41]"
  by (simp add: base64ToBuffer_def bufferToBase64DataUrl_def strip_data_url_closed
      toString_base64_def b64char_def base64_alphabet_def js_def
      Buffer_from_base64_def legal_sextets_def unbase64_def)

text \<open>
  C5, as stated: a remainder with a character outside the alphabet and a wrong padding
  is decoded to bytes; nothing fails.
\<close>

theorem decode_invalid_base64_counterexample:
  "\<not> valid_base64 (strip_data_url (js ''data:application/pdf;base64,Q!Q=''))
   \<and> base64ToBuffer (js ''data:application/pdf;base64,Q!Q='') = Inr [0x41]"
  by (simp add: base64ToBuffer_def strip_data_url_closed valid_base64_def js_def
      in_alphabet_def base64_alphabet_def Buffer_from_base64_def legal_sextets_def
      unbase64_def)

text \<open>
  C5. \<open>base64ToBuffer\<close> returns bytes for every input string, also for one whose
  remainder after the prefix is not valid base64, and never fails.
\<close>

theorem base64ToBuffer_lenient:
  "(\<exists>bytes. base64ToBuffer s = Inr bytes) \<and> (\<forall>err. base64ToBuffer s \<noteq> Inl err)"
  by (simp add: base64ToBuffer_def)

text \<open>
  C9. \<open>base64ToBuffer\<close> removes a leading \<open>data:<mime>;base64,\<close> whose \<open><mime>\<close> is
  not empty and has no semicolon, once, and decodes what follows it unchanged, also
  when that starts with another such prefix; every other input string is decoded
  whole; and every input string gives bytes.
\<close>

theorem base64ToBuffer_strips_one_prefix:
  "(m \<noteq> [] \<and> 0x3B \<notin> set m \<longrightarrow>
      base64ToBuffer (js ''data:'' @ m @ js '';base64,'' @ r) = Inr (Buffer_from_base64 r))
   \<and> ((\<nexists>m r. m \<noteq> [] \<and> 0x3B \<notin> set m \<and> s = js ''data:'' @ m @ js '';base64,'' @ r) \<longrightarrow>
      base64ToBuffer s = Inr (Buffer_from_base64 s))
   \<and> (\<exists>bytes. base64ToBuffer s = Inr bytes)"
proof (intro conjI impI)
  assume "m \<noteq> [] \<and> 0x3B \<notin> set m"
  then have "strip_data_url (js ''data:'' @ m @ js '';base64,'' @ r) = r"
    using strip_data_url_hit[of m r] by blast
  then show "base64ToBuffer (js ''data:'' @ m @ js '';base64,'' @ r) = Inr (Buffer_from_base64 r)"
    by (simp only: base64ToBuffer_def Let_def)
next
  assume "\<nexists>m r. m \<noteq> [] \<and> 0x3B \<notin> set m \<and> s = js ''data:'' @ m @ js '';base64,'' @ r"
  then have "strip_data_url s = s" by (rule strip_data_url_miss)
  then show "base64ToBuffer s = Inr (Buffer_from_base64 s)"
    by (simp only: base64ToBuffer_def Let_def)
next
  show "\<exists>bytes. base64ToBuffer s = Inr bytes"
    by (simp only: base64ToBuffer_def Let_def) blast
qed

theorem base64ToBuffer_strips_one_prefix_witness:
  "base64ToBuffer (js ''data:application/pdf;base64,data:a;base64,QQ=='')
      = Inr (Buffer_from_base64 (js ''data:a;base64,QQ==''))
   \<and> base64ToBuffer (js ''data:text/plain;charset=utf-8;base64,QQ=='')
      = Inr (Buffer_from_base64 (js ''data:text/plain;charset=utf-8;base64,QQ==''))"
proof -
  have a: "js ''application/pdf'' \<noteq> [] \<and> 0x3B \<notin> set (js ''application/pdf'')"
    by (simp add: js_def)
  have b: "\<nexists>m r. m \<noteq> [] \<and> 0x3B \<notin> set m \<and>
      js ''data:text/plain;charset=utf-8;base64,QQ=='' = js ''data:'' @ m @ js '';base64,'' @ r"
    unfolding data_url_shape_iff data_url_prefix_closed by (simp add: js_def)
  have c: "js ''data:application/pdf;base64,data:a;base64,QQ==''
      = js ''data:'' @ js ''application/pdf'' @ js '';base64,'' @ js ''data:a;base64,QQ==''"
    by (simp add: js_def)
  show ?thesis
    using a b c
      base64ToBuffer_strips_one_prefix[of "js ''application/pdf''" "js ''data:a;base64,QQ==''"
        "js ''data:text/plain;charset=utf-8;base64,QQ==''"]
    by simp
qed

section \<open>Validation of the tools' arguments\<close>

text \<open>
  C2. A tool called with a required string argument absent, empty or white space only,
  while every required argument checked before it is present, returns
  \<open>Error: <field> is required\<close> for that argument and leaves the network untouched.
  The first required argument is \<open>pdfFile\<close> in all eight tools; \<open>pageNumbers\<close>,
  \<open>watermarkText\<close> and \<open>pagesToRemove\<close> are checked second. Each text contains its field
  name.
\<close>

theorem required_argument_blank:
  "(blank pdfFile \<longrightarrow>
      splitPDF e pdfFile pageNumbers net = (cross_mark @ js '' Error: pdfFile is required'', net))
   \<and> (\<not> blank pdfFile \<and> blank pageNumbers \<longrightarrow>
      splitPDF e pdfFile pageNumbers net =
           (cross_mark @ js '' Error: pageNumbers is required'', net))
   \<and> (blank pdfFile \<longrightarrow>
      compressPDF e pdfFile optimizeLevel net =
           (cross_mark @ js '' Error: pdfFile is required'', net))
   \<and> (blank pdfFile \<longrightarrow>
      convertPDFToImages e pdfFile imageFormat dpi net =
        (cross_mark @ js '' Error: pdfFile is required'', net))
   \<and> (blank pdfFile \<longrightarrow>
      rotatePDF e pdfFile angle pageNumbers net =
           (cross_mark @ js '' Error: pdfFile is required'', net))
   \<and> (blank pdfFile \<longrightarrow>
      addWatermark e pdfFile watermarkText fontSize opacity rotation net =
        (cross_mark @ js '' Error: pdfFile is required'', net))
   \<and> (\<not> blank pdfFile \<and> blank watermarkText \<longrightarrow>
      addWatermark e pdfFile watermarkText fontSize opacity rotation net =
        (cross_mark @ js '' Error: watermarkText is required'', net))
   \<and> (blank pdfFile \<longrightarrow>
      removePages e pdfFile pagesToRemove net =
           (cross_mark @ js '' Error: pdfFile is required'', net))
   \<and> (\<not> blank pdfFile \<and> blank pagesToRemove \<longrightarrow>
      removePages e pdfFile pagesToRemove net =
        (cross_mark @ js '' Error: pagesToRemove is required'', net))
   \<and> (blank pdfFile \<longrightarrow>
      extractImages e pdfFile imgFormat net =
           (cross_mark @ js '' Error: pdfFile is required'', net))
   \<and> (blank pdfFile \<longrightarrow>
      ocrPDF e pdfFile languages sidecar deskew clean cleanFinal ocrType net =
        (cross_mark @ js '' Error: pdfFile is required'', net))
   \<and> contains (cross_mark @ js '' Error: pdfFile is required'') (js ''pdfFile'')
   \<and> contains (cross_mark @ js '' Error: pageNumbers is required'') (js ''pageNumbers'')
   \<and> contains (cross_mark @ js '' Error: watermarkText is required'') (js ''watermarkText'')
   \<and> contains (cross_mark @ js '' Error: pagesToRemove is required'') (js ''pagesToRemove'')"
proof (intro conjI impI)
  show "contains (cross_mark @ js '' Error: pdfFile is required'') (js ''pdfFile'')"
    "contains (cross_mark @ js '' Error: pageNumbers is required'') (js ''pageNumbers'')"
    "contains (cross_mark @ js '' Error: watermarkText is required'') (js ''watermarkText'')"
    "contains (cross_mark @ js '' Error: pagesToRemove is required'') (js ''pagesToRemove'')"
    by (simp_all add: contains_Cons contains_Nil cross_mark_def js_def)
qed (simp_all add: splitPDF_blank_pdfFile splitPDF_blank_pageNumbers compressPDF_blank_pdfFile
    convertPDFToImages_blank_pdfFile rotatePDF_blank_pdfFile addWatermark_blank_pdfFile
    addWatermark_blank_watermarkText removePages_blank_pdfFile removePages_blank_pagesToRemove
    extractImages_blank_pdfFile ocrPDF_blank_pdfFile)

theorem required_argument_blank_witness:
  "compressPDF (stub (Response 200 (js ''OK'') [] [])) (Some (js ''   '')) None [] =
     (cross_mark @ js '' Error: pdfFile is required'', [])
   \<and> splitPDF (stub (Response 200 (js ''OK'') [] [])) (Some (js ''JVBERg=='')) None [] =
     (cross_mark @ js '' Error: pageNumbers is required'', [])"
proof -
  note a = required_argument_blank[where pdfFile = "Some (js ''   '')" and optimizeLevel = None
      and e = "stub (Response 200 (js ''OK'') [] [])" and net = "[]"]
  note b = required_argument_blank[where pdfFile = "Some (js ''JVBERg=='')" and pageNumbers = None
      and e = "stub (Response 200 (js ''OK'') [] [])" and net = "[]"]
  have second: "\<not> blank (Some (js ''JVBERg=='')) \<and> blank None"
    using present_pdf blank_examples(1) by simp
  from a[THEN conjunct2, THEN conjunct2, THEN conjunct1, THEN mp, OF blank_examples(3)]
    b[THEN conjunct2, THEN conjunct1, THEN mp, OF second]
  show ?thesis by simp
qed

text \<open>
  C2, for every required argument: with both arguments of \<open>splitPDF\<close> empty the text
  names \<open>pdfFile\<close>, the first one checked, and does not contain \<open>pageNumbers\<close>.
\<close>

theorem second_required_argument_counterexample:
  "splitPDF (stub (Response 200 (js ''OK'') [] [])) (Some []) (Some []) [] =
     (cross_mark @ js '' Error: pdfFile is required'', [])
   \<and> \<not> contains (cross_mark @ js '' Error: pdfFile is required'') (js ''pageNumbers'')"
proof -
  have "splitPDF (stub (Response 200 (js ''OK'') [] [])) (Some []) (Some []) [] =
     (cross_mark @ js '' Error: pdfFile is required'', [])"
    by (rule splitPDF_blank_pdfFile) (rule blank_examples(2))
  moreover have "\<not> contains (cross_mark @ js '' Error: pdfFile is required'') (js ''pageNumbers'')"
    by (simp add: contains_Cons contains_Nil cross_mark_def js_def)
  ultimately show ?thesis by simp
qed

text \<open>
  C6. \<open>mergePDFs\<close> with fewer than two files, or none given, returns the cardinality
  error and issues no request; with two files it issues exactly one request, whose
  binary parts are the two decoded files in the order given, named \<open>file1.pdf\<close> and
  \<open>file2.pdf\<close>. \<open>convertImagesToPDF\<close> with no image returns its cardinality error and
  issues no request; with one image it issues exactly one request with one binary part.
\<close>

theorem merge_and_images_cardinality:
  "(length pdfFiles < 2 \<longrightarrow>
      mergePDFs e (Some pdfFiles) sortType net =
        (cross_mark @ js '' Error: At least 2 PDF files are required for merging'', net))
   \<and> mergePDFs e None sortType net =
        (cross_mark @ js '' Error: At least 2 PDF files are required for merging'', net)
   \<and> (\<exists>shown req. mergePDFs e (Some [first, second]) sortType net = (shown, net @ [req]) \<and>
        filter is_file_part (body req) =
          [FilePart (js ''fileInput'') (Buffer_from_base64 (strip_data_url first)) (js ''file1.pdf''),
           FilePart (js ''fileInput'') (Buffer_from_base64 (strip_data_url second)) (js ''file2.pdf'')])
   \<and> convertImagesToPDF e (Some []) fitOption colorType net =
        (cross_mark @ js '' Error: At least 1 image file is required'', net)
   \<and> convertImagesToPDF e None fitOption colorType net =
        (cross_mark @ js '' Error: At least 1 image file is required'', net)
   \<and> (\<exists>shown req filename. convertImagesToPDF e (Some [picture]) fitOption colorType net = (shown, net @ [req]) \<and>
        filter is_file_part (body req) =
          [FilePart (js ''fileInput'') (Buffer_from_base64 (strip_data_url picture)) filename])"
proof (intro conjI impI)
  assume "length pdfFiles < 2"
  then show "mergePDFs e (Some pdfFiles) sortType net =
        (cross_mark @ js '' Error: At least 2 PDF files are required for merging'', net)"
    by (simp add: mergePDFs_few or_default_def)
next
  show "mergePDFs e None sortType net =
        (cross_mark @ js '' Error: At least 2 PDF files are required for merging'', net)"
    by (simp add: mergePDFs_few or_default_def)
next
  have digits: "show_nat (Suc 0) = js ''1''" "show_nat (Suc (Suc 0)) = js ''2''"
    using show_nat_1 show_nat_2 by (simp_all add: numeral_2_eq_2)
  have names: "js ''file'' @ js ''1'' @ js ''.pdf'' = js ''file1.pdf''"
    "js ''file'' @ js ''2'' @ js ''.pdf'' = js ''file2.pdf''"
    by (simp_all add: js_def)
  define form where "form =
     map (\<lambda>(index, base64Pdf).
            FilePart (js ''fileInput'') (Buffer_from_base64 (strip_data_url base64Pdf))
              (js ''file'' @ show_nat (index + 1) @ js ''.pdf''))
       (enumerate 0 (or_default [] (Some [first, second]))) @
     [FieldPart (js ''sortType'') (or_default (js ''orderProvided'') sortType)]"
  have files: "filter is_file_part form =
          [FilePart (js ''fileInput'') (Buffer_from_base64 (strip_data_url first)) (js ''file1.pdf''),
           FilePart (js ''fileInput'') (Buffer_from_base64 (strip_data_url second)) (js ''file2.pdf'')]"
    by (simp add: form_def or_default_def enumerate_simps digits names)
  have "2 \<le> length (or_default [] (Some [first, second]))" by (simp add: or_default_def)
  then have "mergePDFs e (Some [first, second]) sortType net =
     (case callStirlingAPI e (js ''/api/v1/general/merge-pdfs'') form net of
        (Inl x, net') \<Rightarrow> (formatError x, net')
      | (Inr r, net') \<Rightarrow>
          (check_mark @ js '' Successfully merged '' @
           show_nat (length (or_default [] (Some [first, second]))) @
           js '' PDF files'' @ nl @ nl @ page_icon @ js '' Result (base64 data URL):'' @ nl @
           bufferToBase64DataUrl r None, net'))"
    unfolding form_def by (rule mergePDFs_run)
  then have "\<exists>shown req. mergePDFs e (Some [first, second]) sortType net = (shown, net @ [req]) \<and>
      body req = form"
    by (rule run_one_requestE)
  with files show "\<exists>shown req. mergePDFs e (Some [first, second]) sortType net = (shown, net @ [req]) \<and>
        filter is_file_part (body req) =
          [FilePart (js ''fileInput'') (Buffer_from_base64 (strip_data_url first)) (js ''file1.pdf''),
           FilePart (js ''fileInput'') (Buffer_from_base64 (strip_data_url second)) (js ''file2.pdf'')]"
    by auto
next
  show "convertImagesToPDF e (Some []) fitOption colorType net =
        (cross_mark @ js '' Error: At least 1 image file is required'', net)"
    by (simp add: convertImagesToPDF_none or_default_def)
next
  show "convertImagesToPDF e None fitOption colorType net =
        (cross_mark @ js '' Error: At least 1 image file is required'', net)"
    by (simp add: convertImagesToPDF_none or_default_def)
next
  define form where "form =
     map (\<lambda>(index, base64Image).
            FilePart (js ''fileInput'') (Buffer_from_base64 (strip_data_url base64Image))
              (js ''image'' @ show_nat (index + 1) @ js ''.'' @
               (case match_image_format base64Image of
                  None \<Rightarrow> js ''png''
                | Some groups \<Rightarrow> groups ! 0)))
       (enumerate 0 (or_default [] (Some [picture]))) @
     [FieldPart (js ''fitOption'') (or_default (js ''fillPage'') fitOption),
      FieldPart (js ''colorType'') (or_default (js ''color'') colorType),
      FieldPart (js ''autoRotate'') (js ''false'')]"
  have files: "\<exists>filename. filter is_file_part form =
          [FilePart (js ''fileInput'') (Buffer_from_base64 (strip_data_url picture)) filename]"
    by (simp add: form_def or_default_def enumerate_simps)
  have "or_default [] (Some [picture]) \<noteq> []" by (simp add: or_default_def)
  then have "convertImagesToPDF e (Some [picture]) fitOption colorType net =
     (case callStirlingAPI e (js ''/api/v1/convert/img/pdf'') form net of
        (Inl x, net') \<Rightarrow> (formatError x, net')
      | (Inr r, net') \<Rightarrow>
          (check_mark @ js '' Successfully converted '' @
           show_nat (length (or_default [] (Some [picture]))) @ js '' images to PDF'' @ nl @ nl @
           page_icon @ js '' Result (base64 data URL):'' @ nl @ bufferToBase64DataUrl r None, net'))"
    unfolding form_def by (rule convertImagesToPDF_run)
  then have "\<exists>shown req. convertImagesToPDF e (Some [picture]) fitOption colorType net = (shown, net @ [req]) \<and>
      body req = form"
    by (rule run_one_requestE)
  with files show "\<exists>shown req filename. convertImagesToPDF e (Some [picture]) fitOption colorType net = (shown, net @ [req]) \<and>
        filter is_file_part (body req) =
          [FilePart (js ''fileInput'') (Buffer_from_base64 (strip_data_url picture)) filename]"
    by auto
qed

theorem merge_and_images_cardinality_witness:
  "mergePDFs (stub (Response 200 (js ''OK'') [] [])) (Some [js ''JVBERg=='']) None [] =
     (cross_mark @ js '' Error: At least 2 PDF files are required for merging'', [])"
  using merge_and_images_cardinality[of "[js ''JVBERg=='']" "stub (Response 200 (js ''OK'') [] [])" None "[]"]
  by simp

text \<open>
  C10. \<open>convertImagesToPDF\<close> on a non-empty list issues one request with one binary
  part for each image, in order; the part of the image at index \<open>i\<close> (counted from 0)
  is named \<open>image<i+1>.<ext>\<close>, where \<open><ext>\<close> is \<open>fmt\<close> when the image string starts
  with \<open>data:image/fmt;\<close> for a non-empty \<open>fmt\<close> of letters, digits and underscores, and
  \<open>png\<close> when it starts with no such prefix.
\<close>

theorem convertImagesToPDF_filenames:
  assumes "imageFiles \<noteq> []"
  shows "\<exists>shown req.
     convertImagesToPDF e (Some imageFiles) fitOption colorType net = (shown, net @ [req]) \<and>
     length (filter is_file_part (body req)) = length imageFiles \<and>
     (\<forall>i < length imageFiles. \<exists>ext.
        filter is_file_part (body req) ! i =
          FilePart (js ''fileInput'') (Buffer_from_base64 (strip_data_url (imageFiles ! i)))
            (js ''image'' @ show_nat (i + 1) @ js ''.'' @ ext) \<and>
        (\<forall>fmt rest. fmt \<noteq> [] \<and> (\<forall>c \<in> set fmt. is_word_char c) \<and>
             imageFiles ! i = js ''data:image/'' @ fmt @ js '';'' @ rest \<longrightarrow> ext = fmt) \<and>
        ((\<nexists>fmt rest. fmt \<noteq> [] \<and> (\<forall>c \<in> set fmt. is_word_char c) \<and>
             imageFiles ! i = js ''data:image/'' @ fmt @ js '';'' @ rest) \<longrightarrow> ext = js ''png''))"
proof -
  define ext where "ext = (\<lambda>base64Image.
     case match_image_format base64Image of None \<Rightarrow> js ''png'' | Some groups \<Rightarrow> groups ! 0)"
  define files where "files =
     map (\<lambda>(index, base64Image).
            FilePart (js ''fileInput'') (Buffer_from_base64 (strip_data_url base64Image))
              (js ''image'' @ show_nat (index + 1) @ js ''.'' @ ext base64Image))
       (enumerate 0 imageFiles)"
  define form where "form = files @
     [FieldPart (js ''fitOption'') (or_default (js ''fillPage'') fitOption),
      FieldPart (js ''colorType'') (or_default (js ''color'') colorType),
      FieldPart (js ''autoRotate'') (js ''false'')]"
  have "\<forall>p \<in> set files. is_file_part p" by (auto simp: files_def)
  then have parts: "filter is_file_part form = files"
    unfolding form_def by (simp add: filter_id_conv)
  have len: "length files = length imageFiles" by (simp add: files_def)
  have nth: "files ! i =
          FilePart (js ''fileInput'') (Buffer_from_base64 (strip_data_url (imageFiles ! i)))
            (js ''image'' @ show_nat (i + 1) @ js ''.'' @ ext (imageFiles ! i))"
    if "i < length imageFiles" for i
    using that by (simp add: files_def nth_enumerate_eq)
  have present: "ext s = fmt"
    if "fmt \<noteq> [] \<and> (\<forall>c \<in> set fmt. is_word_char c) \<and> s = js ''data:image/'' @ fmt @ js '';'' @ rest"
    for s fmt rest
    unfolding ext_def using that image_ext_present[of fmt s rest] by blast
  have absent: "ext s = js ''png''"
    if "\<nexists>fmt rest. fmt \<noteq> [] \<and> (\<forall>c \<in> set fmt. is_word_char c) \<and>
             s = js ''data:image/'' @ fmt @ js '';'' @ rest" for s
    unfolding ext_def using that by (rule image_ext_absent)
  have "or_default [] (Some imageFiles) \<noteq> []" using assms by (simp add: or_default_def)
  then have "convertImagesToPDF e (Some imageFiles) fitOption colorType net =
     (case callStirlingAPI e (js ''/api/v1/convert/img/pdf'') form net of
        (Inl x, net') \<Rightarrow> (formatError x, net')
      | (Inr r, net') \<Rightarrow>
          (check_mark @ js '' Successfully converted '' @
           show_nat (length (or_default [] (Some imageFiles))) @ js '' images to PDF'' @ nl @ nl @
           page_icon @ js '' Result (base64 data URL):'' @ nl @ bufferToBase64DataUrl r None, net'))"
    using convertImagesToPDF_run[of "Some imageFiles" e fitOption colorType net]
    by (simp add: form_def files_def ext_def or_default_def)
  then have "\<exists>shown req. convertImagesToPDF e (Some imageFiles) fitOption colorType net
      = (shown, net @ [req]) \<and> body req = form"
    by (rule run_one_requestE)
  then obtain shown req where run:
    "convertImagesToPDF e (Some imageFiles) fitOption colorType net = (shown, net @ [req])"
    "body req = form"
    by blast
  show ?thesis
  proof (intro exI conjI allI impI)
    show "convertImagesToPDF e (Some imageFiles) fitOption colorType net = (shown, net @ [req])"
      by (rule run(1))
    show "length (filter is_file_part (body req)) = length imageFiles"
      by (simp add: run(2) parts len)
    fix i assume i: "i < length imageFiles"
    show "filter is_file_part (body req) ! i =
          FilePart (js ''fileInput'') (Buffer_from_base64 (strip_data_url (imageFiles ! i)))
            (js ''image'' @ show_nat (i + 1) @ js ''.'' @ ext (imageFiles ! i))"
      using nth[OF i] by (simp add: run(2) parts)
    show "ext (imageFiles ! i) = fmt"
      if "fmt \<noteq> [] \<and> (\<forall>c \<in> set fmt. is_word_char c) \<and>
             imageFiles ! i = js ''data:image/'' @ fmt @ js '';'' @ rest" for fmt rest
      using that by (rule present)
    show "ext (imageFiles ! i) = js ''png''"
      if "\<nexists>fmt rest. fmt \<noteq> [] \<and> (\<forall>c \<in> set fmt. is_word_char c) \<and>
             imageFiles ! i = js ''data:image/'' @ fmt @ js '';'' @ rest"
      using that by (rule absent)
  qed
qed

theorem convertImagesToPDF_filenames_witness:
  "\<exists>shown req a b.
     convertImagesToPDF (stub (Response 200 (js ''OK'') [] []))
       (Some [js ''iVBORw=='', js ''data:image/jpeg;base64,/9j/'']) None None [] = (shown, [req]) \<and>
     filter is_file_part (body req) ! 0 = FilePart (js ''fileInput'') a (js ''image1.png'') \<and>
     filter is_file_part (body req) ! 1 = FilePart (js ''fileInput'') b (js ''image2.jpeg'')"
proof -
  define xs where "xs = [js ''iVBORw=='', js ''data:image/jpeg;base64,/9j/'']"
  have "xs \<noteq> []" by (simp add: xs_def)
  from convertImagesToPDF_filenames[OF this, of "stub (Response 200 (js ''OK'') [] [])" None None "[]"]
  obtain shown req where run:
    "convertImagesToPDF (stub (Response 200 (js ''OK'') [] [])) (Some xs) None None [] = (shown, [req])"
    and names: "\<And>i. i < length xs \<Longrightarrow> \<exists>ext.
        filter is_file_part (body req) ! i =
          FilePart (js ''fileInput'') (Buffer_from_base64 (strip_data_url (xs ! i)))
            (js ''image'' @ show_nat (i + 1) @ js ''.'' @ ext) \<and>
        (\<forall>fmt rest. fmt \<noteq> [] \<and> (\<forall>c \<in> set fmt. is_word_char c) \<and>
             xs ! i = js ''data:image/'' @ fmt @ js '';'' @ rest \<longrightarrow> ext = fmt) \<and>
        ((\<nexists>fmt rest. fmt \<noteq> [] \<and> (\<forall>c \<in> set fmt. is_word_char c) \<and>
             xs ! i = js ''data:image/'' @ fmt @ js '';'' @ rest) \<longrightarrow> ext = js ''png'')"
    by auto
  have plain: "\<nexists>fmt rest. fmt \<noteq> [] \<and> (\<forall>c \<in> set fmt. is_word_char c) \<and>
             xs ! 0 = js ''data:image/'' @ fmt @ js '';'' @ rest"
    by (simp add: xs_def js_def)
  have jpeg: "js ''jpeg'' \<noteq> [] \<and> (\<forall>c \<in> set (js ''jpeg''). is_word_char c) \<and>
             xs ! 1 = js ''data:image/'' @ js ''jpeg'' @ js '';'' @ js ''base64,/9j/''"
    by (simp add: xs_def js_def is_word_char_def)
  from names[of 0] plain have first:
    "filter is_file_part (body req) ! 0 =
       FilePart (js ''fileInput'') (Buffer_from_base64 (strip_data_url (xs ! 0)))
         (js ''image'' @ show_nat (0 + 1) @ js ''.'' @ js ''png'')"
    by (auto simp: xs_def)
  from names[of 1] jpeg have second:
    "filter is_file_part (body req) ! 1 =
       FilePart (js ''fileInput'') (Buffer_from_base64 (strip_data_url (xs ! 1)))
         (js ''image'' @ show_nat (1 + 1) @ js ''.'' @ js ''jpeg'')"
    by (auto simp: xs_def)
  have "js ''image'' @ show_nat (0 + 1) @ js ''.'' @ js ''png'' = js ''image1.png''"
    "js ''image'' @ show_nat (1 + 1) @ js ''.'' @ js ''jpeg'' = js ''image2.jpeg''"
    by (simp_all add: show_nat_digit js_def)
  with first second run show ?thesis unfolding xs_def by auto
qed

text \<open>
  C10, for any format: an image given as \<open>data:image/svg+xml;base64,...\<close> starts with
  \<open>data:image/\<close>, a format and a semicolon, yet the format has a \<open>+\<close> in it and the
  part is named \<open>image1.png\<close>.
\<close>

theorem svg_filename_counterexample:
  "map body (snd (convertImagesToPDF (stub (Response 200 (js ''OK'') [] []))
                    (Some [js ''data:image/svg+xml;base64,PHN2Zz4='']) None None []))
     = [[FilePart (js ''fileInput'') [0x3C, 0x73, 0x76, 0x67, 0x3E] (js ''image1.png''),
         FieldPart (js ''fitOption'') (js ''fillPage''),
         FieldPart (js ''colorType'') (js ''color''),
         FieldPart (js ''autoRotate'') (js ''false'')]]"
proof -
  define svg where "svg = js ''data:image/svg+xml;base64,PHN2Zz4=''"
  have ext: "match_image_format svg = None"
    unfolding match_image_format_closed by (simp add: svg_def js_def is_word_char_def)
  have bytes: "Buffer_from_base64 (strip_data_url svg) = [0x3C, 0x73, 0x76, 0x67, 0x3E]"
    by (simp add: svg_def strip_data_url_closed js_def Buffer_from_base64_def legal_sextets_def
        unbase64_def)
  have name: "js ''image'' @ show_nat (0 + 1) @ js ''.'' @ js ''png'' = js ''image1.png''"
    by (simp add: show_nat_digit js_def)
  have "or_default [] (Some [svg]) \<noteq> []" by (simp add: or_default_def)
  note run = convertImagesToPDF_run[OF this, where e = "stub (Response 200 (js ''OK'') [] [])"
      and fitOption = None and colorType = None and net = "[]"]
  obtain req where "snd (callStirlingAPI (stub (Response 200 (js ''OK'') [] []))
        (js ''/api/v1/convert/img/pdf'')
        (map (\<lambda>(index, base64Image).
                 FilePart (js ''fileInput'') (Buffer_from_base64 (strip_data_url base64Image))
                   (js ''image'' @ show_nat (index + 1) @ js ''.'' @
                    (case match_image_format base64Image of
                       None \<Rightarrow> js ''png''
                     | Some groups \<Rightarrow> groups ! 0)))
            (enumerate 0 (or_default [] (Some [svg]))) @
          [FieldPart (js ''fitOption'') (or_default (js ''fillPage'') None),
           FieldPart (js ''colorType'') (or_default (js ''color'') None),
           FieldPart (js ''autoRotate'') (js ''false'')]) []) = [] @ [req]"
    and "body req =
        map (\<lambda>(index, base64Image).
                 FilePart (js ''fileInput'') (Buffer_from_base64 (strip_data_url base64Image))
                   (js ''image'' @ show_nat (index + 1) @ js ''.'' @
                    (case match_image_format base64Image of
                       None \<Rightarrow> js ''png''
                     | Some groups \<Rightarrow> groups ! 0)))
            (enumerate 0 (or_default [] (Some [svg]))) @
          [FieldPart (js ''fitOption'') (or_default (js ''fillPage'') None),
           FieldPart (js ''colorType'') (or_default (js ''color'') None),
           FieldPart (js ''autoRotate'') (js ''false'')]"
    using callStirlingAPI_one_request by blast
  then have "map body (snd (convertImagesToPDF (stub (Response 200 (js ''OK'') [] []))
                    (Some [svg]) None None []))
     = [[FilePart (js ''fileInput'') [0x3C, 0x73, 0x76, 0x67, 0x3E] (js ''image1.png''),
         FieldPart (js ''fitOption'') (js ''fillPage''),
         FieldPart (js ''colorType'') (js ''color''),
         FieldPart (js ''autoRotate'') (js ''false'')]]"
    unfolding run run_snd
    using name by (simp add: or_default_def enumerate_simps ext bytes)
  then show ?thesis by (simp only: svg_def)
qed

section \<open>Failures of the remote API\<close>

text \<open>
  C3. When the remote service answers every request with a status outside 200 to 299
  (and not 0, which no HTTP response has) that the HTTP client does not follow as a
  redirect (not a status from 300 to 399 with a \<open>Location\<close> header), each of the ten
  tools, once its arguments pass validation, returns the text
  \<open>Error: Stirling PDF API returned <status>: <detail>\<close> and throws nothing; the detail
  is the response body decoded as UTF-8 when the body is not empty, and otherwise the
  reason phrase (or \<open>Unknown Error\<close> when that is empty too). The text contains the
  status, and the body text when there is one.
\<close>

theorem upstream_failure_text:
  assumes "\<And>req. upstream e req = Response st reason location payload"
    and "\<not> (200 \<le> st \<and> st < 300)" and "st \<noteq> 0"
    and "\<not> follows_redirect st location"
  defines "failure \<equiv>
     cross_mark @ js '' Error: Stirling PDF API returned '' @ show_nat st @ js '': '' @
       (if payload \<noteq> [] then toString_utf8 payload
        else if reason \<noteq> [] then reason else js ''Unknown Error'')"
  shows "(2 \<le> length pdfFiles \<longrightarrow> fst (mergePDFs e (Some pdfFiles) sortType net) = failure)
    \<and> (\<not> blank pdfFile \<and> \<not> blank pageNumbers \<longrightarrow>
         fst (splitPDF e pdfFile pageNumbers net) = failure)
    \<and> (\<not> blank pdfFile \<longrightarrow> fst (compressPDF e pdfFile optimizeLevel net) = failure)
    \<and> (\<not> blank pdfFile \<longrightarrow> fst (convertPDFToImages e pdfFile imageFormat dpi net) = failure)
    \<and> (\<not> blank pdfFile \<longrightarrow> fst (rotatePDF e pdfFile angle pageNumbers net) = failure)
    \<and> (\<not> blank pdfFile \<and> \<not> blank watermarkText \<longrightarrow>
         fst (addWatermark e pdfFile watermarkText fontSize opacity rotation net) = failure)
    \<and> (\<not> blank pdfFile \<and> \<not> blank pagesToRemove \<longrightarrow>
         fst (removePages e pdfFile pagesToRemove net) = failure)
    \<and> (\<not> blank pdfFile \<longrightarrow> fst (extractImages e pdfFile imgFormat net) = failure)
    \<and> (imageFiles \<noteq> [] \<longrightarrow>
         fst (convertImagesToPDF e (Some imageFiles) fitOption colorType net) = failure)
    \<and> (\<not> blank pdfFile \<longrightarrow>
         fst (ocrPDF e pdfFile languages sidecar deskew clean cleanFinal ocrType net) = failure)
    \<and> contains failure (show_nat st)
    \<and> (payload \<noteq> [] \<longrightarrow> contains failure (toString_utf8 payload))
    \<and> (payload = [] \<and> reason \<noteq> [] \<longrightarrow> contains failure reason)"
proof (intro conjI impI)
  note rej = run_rejected[OF _ assms(1,2,3,4), folded failure_def]
  show "fst (mergePDFs e (Some pdfFiles) sortType net) = failure" if "2 \<le> length pdfFiles"
    by (rule rej[OF mergePDFs_run[OF not_blank_files[OF that]]])
  show "fst (splitPDF e pdfFile pageNumbers net) = failure"
    if "\<not> blank pdfFile \<and> \<not> blank pageNumbers"
    using that by (intro rej[OF splitPDF_run]) simp_all
  show "fst (compressPDF e pdfFile optimizeLevel net) = failure" if "\<not> blank pdfFile"
    by (rule rej[OF compressPDF_run[OF that]])
  show "fst (convertPDFToImages e pdfFile imageFormat dpi net) = failure" if "\<not> blank pdfFile"
    by (rule rej[OF convertPDFToImages_run[OF that]])
  show "fst (rotatePDF e pdfFile angle pageNumbers net) = failure" if "\<not> blank pdfFile"
    by (rule rej[OF rotatePDF_run[OF that]])
  show "fst (addWatermark e pdfFile watermarkText fontSize opacity rotation net) = failure"
    if "\<not> blank pdfFile \<and> \<not> blank watermarkText"
    using that by (intro rej[OF addWatermark_run]) simp_all
  show "fst (removePages e pdfFile pagesToRemove net) = failure"
    if "\<not> blank pdfFile \<and> \<not> blank pagesToRemove"
    using that by (intro rej[OF removePages_run]) simp_all
  show "fst (extractImages e pdfFile imgFormat net) = failure" if "\<not> blank pdfFile"
    by (rule rej[OF extractImages_run[OF that]])
  show "fst (convertImagesToPDF e (Some imageFiles) fitOption colorType net) = failure"
    if "imageFiles \<noteq> []"
    by (rule rej[OF convertImagesToPDF_run[OF not_blank_images[OF that]]])
  show "fst (ocrPDF e pdfFile languages sidecar deskew clean cleanFinal ocrType net) = failure"
    if "\<not> blank pdfFile"
    by (rule rej[OF ocrPDF_run[OF that]])
  show "contains failure (show_nat st)"
    unfolding failure_def
    using containsI[of "cross_mark @ js '' Error: Stirling PDF API returned ''" "show_nat st"]
    by simp
  show "contains failure (toString_utf8 payload)" if "payload \<noteq> []"
    unfolding failure_def using that
      containsI[of "cross_mark @ js '' Error: Stirling PDF API returned '' @ show_nat st @ js '': ''"
        "toString_utf8 payload" "[]"]
    by simp
  show "contains failure reason" if "payload = [] \<and> reason \<noteq> []"
    unfolding failure_def using that
      containsI[of "cross_mark @ js '' Error: Stirling PDF API returned '' @ show_nat st @ js '': ''"
        reason "[]"]
    by simp
qed

theorem upstream_failure_text_witness:
  "fst (compressPDF (stub (Response 500 (js ''Internal Server Error'') [] [0x62, 0x6F, 0x6F, 0x6D]))
         (Some (js ''JVBERg=='')) None [])
     = cross_mark @ js '' Error: Stirling PDF API returned 500: boom''
   \<and> contains (cross_mark @ js '' Error: Stirling PDF API returned 500: boom'') (js ''500'')
   \<and> contains (cross_mark @ js '' Error: Stirling PDF API returned 500: boom'') (js ''boom'')"
proof -
  have msg: "cross_mark @ js '' Error: Stirling PDF API returned '' @ show_nat 500 @ js '': '' @
      toString_utf8 [0x62, 0x6F, 0x6F, 0x6D]
     = cross_mark @ js '' Error: Stirling PDF API returned 500: boom''"
    by (simp add: show_nat_500 toString_utf8_boom js_def)
  have "\<not> (200 \<le> (500::nat) \<and> (500::nat) < 300)" "(500::nat) \<noteq> 0" by simp_all
  note failure = upstream_failure_text[OF boom_stub this boom_not_followed,
      where pdfFile = "Some (js ''JVBERg=='')" and optimizeLevel = None and net = "[]"]
  note compress = failure[THEN conjunct2, THEN conjunct2, THEN conjunct1, THEN mp, OF present_pdf]
  have "contains (cross_mark @ js '' Error: Stirling PDF API returned 500: boom'') (js ''500'')"
    "contains (cross_mark @ js '' Error: Stirling PDF API returned 500: boom'') (js ''boom'')"
    by (simp_all add: contains_Cons contains_Nil cross_mark_def js_def)
  then show ?thesis
    using compress by (simp add: msg)
qed

text \<open>
  C3, as stated. With status 500, reason \<open>Internal Server Error\<close> and body \<open>boom\<close> the
  text is \<open>Error: Stirling PDF API returned 500: boom\<close>; the reason is not in it. With
  status 302, reason \<open>Found\<close>, the header \<open>Location: /login\<close> and body \<open>moved\<close> on
  every request, the HTTP client follows the redirects until it gives up, and the text
  is \<open>Error: Stirling PDF API returned unknown: Unknown Error\<close>; neither the status
  nor the body is in it.
\<close>

theorem upstream_reason_counterexample:
  "fst (compressPDF (stub (Response 500 (js ''Internal Server Error'') [] [0x62, 0x6F, 0x6F, 0x6D]))
         (Some (js ''JVBERg=='')) None [])
     = cross_mark @ js '' Error: Stirling PDF API returned 500: boom''
   \<and> \<not> contains (cross_mark @ js '' Error: Stirling PDF API returned 500: boom'')
         (js ''Internal Server Error'')
   \<and> fst (compressPDF (stub (Response 302 (js ''Found'') (js ''/login'') [0x6D, 0x6F, 0x76, 0x65, 0x64]))
         (Some (js ''JVBERg=='')) None [])
     = cross_mark @ js '' Error: Stirling PDF API returned unknown: Unknown Error''
   \<and> \<not> contains (cross_mark @ js '' Error: Stirling PDF API returned unknown: Unknown Error'')
         (js ''302'')
   \<and> \<not> contains (cross_mark @ js '' Error: Stirling PDF API returned unknown: Unknown Error'')
         (js ''moved'')"
proof -
  have "fst (compressPDF (stub (Response 500 (js ''Internal Server Error'') [] [0x62, 0x6F, 0x6F, 0x6D]))
         (Some (js ''JVBERg=='')) None [])
     = cross_mark @ js '' Error: Stirling PDF API returned '' @ show_nat 500 @ js '': '' @
         (if [0x62, 0x6F, 0x6F, 0x6D] \<noteq> ([] :: buffer) then toString_utf8 [0x62, 0x6F, 0x6F, 0x6D]
          else if js ''Internal Server Error'' \<noteq> [] then js ''Internal Server Error''
          else js ''Unknown Error'')"
    by (rule run_rejected[OF compressPDF_run[OF present_pdf] boom_stub _ _ boom_not_followed])
      simp_all
  then have server_error:
    "fst (compressPDF (stub (Response 500 (js ''Internal Server Error'') [] [0x62, 0x6F, 0x6F, 0x6D]))
         (Some (js ''JVBERg=='')) None [])
     = cross_mark @ js '' Error: Stirling PDF API returned 500: boom''"
    by (simp add: show_nat_500 toString_utf8_boom js_def)
  have no_reason: "\<not> contains (cross_mark @ js '' Error: Stirling PDF API returned 500: boom'')
         (js ''Internal Server Error'')"
    by (simp add: contains_Cons contains_Nil cross_mark_def js_def)
  have redirect:
    "fst (compressPDF (stub (Response 302 (js ''Found'') (js ''/login'') [0x6D, 0x6F, 0x76, 0x65, 0x64]))
         (Some (js ''JVBERg=='')) None [])
     = cross_mark @ js '' Error: Stirling PDF API returned unknown: Unknown Error''"
    by (rule run_redirect_loop[OF compressPDF_run[OF present_pdf] moved_stub moved_followed])
  have no_status:
    "\<not> contains (cross_mark @ js '' Error: Stirling PDF API returned unknown: Unknown Error'')
         (js ''302'')"
    "\<not> contains (cross_mark @ js '' Error: Stirling PDF API returned unknown: Unknown Error'')
         (js ''moved'')"
    by (simp_all add: contains_Cons contains_Nil cross_mark_def js_def)
  from server_error no_reason redirect no_status show ?thesis
    by (intro conjI)
qed

text \<open>
  C4. When no response arrives (connection refused, timeout, DNS failure), the client
  issues its one request and fails with the fixed message
  \<open>Stirling PDF API returned unknown: Unknown Error\<close>, whatever the cause was.
\<close>

theorem transport_failure_message:
  assumes "\<And>req. upstream e req = NoResponse cause"
  shows "\<exists>req. callStirlingAPI e endpoint formData net =
           (Inl (JsError (js ''Stirling PDF API returned unknown: Unknown Error'')), net @ [req])"
  using callStirlingAPI_no_response[OF assms] by blast

theorem transport_failure_message_witness:
  "\<exists>req. callStirlingAPI (stub (NoResponse (js ''timeout of 120000ms exceeded'')))
           (js ''/api/v1/misc/compress-pdf'') [] [] =
         (Inl (JsError (js ''Stirling PDF API returned unknown: Unknown Error'')), [req])"
  using transport_failure_message[of "stub (NoResponse (js ''timeout of 120000ms exceeded''))"
      "js ''timeout of 120000ms exceeded''" "js ''/api/v1/misc/compress-pdf''" "[]" "[]"]
  by (simp add: upstream_stub)

text \<open>
  C4, for the cause: after \<open>connect ECONNREFUSED 127.0.0.1:8080\<close> the message of the
  client contains neither that description nor the word \<open>ECONNREFUSED\<close>.
\<close>

theorem transport_cause_lost_counterexample:
  "fst (callStirlingAPI (stub (NoResponse (js ''connect ECONNREFUSED 127.0.0.1:8080'')))
         (js ''/api/v1/misc/compress-pdf'') [] [])
     = Inl (JsError (js ''Stirling PDF API returned unknown: Unknown Error''))
   \<and> \<not> contains (js ''Stirling PDF API returned unknown: Unknown Error'')
         (js ''connect ECONNREFUSED 127.0.0.1:8080'')
   \<and> \<not> contains (js ''Stirling PDF API returned unknown: Unknown Error'') (js ''ECONNREFUSED'')"
proof -
  obtain req where "callStirlingAPI (stub (NoResponse (js ''connect ECONNREFUSED 127.0.0.1:8080'')))
         (js ''/api/v1/misc/compress-pdf'') [] [] =
       (Inl (JsError (js ''Stirling PDF API returned unknown: Unknown Error'')), [] @ [req])"
    using callStirlingAPI_no_response[of "stub (NoResponse (js ''connect ECONNREFUSED 127.0.0.1:8080''))"
        "js ''connect ECONNREFUSED 127.0.0.1:8080''" "js ''/api/v1/misc/compress-pdf''" "[]" "[]"]
    by (auto simp: upstream_stub)
  moreover have "\<not> contains (js ''Stirling PDF API returned unknown: Unknown Error'')
         (js ''connect ECONNREFUSED 127.0.0.1:8080'')"
    "\<not> contains (js ''Stirling PDF API returned unknown: Unknown Error'') (js ''ECONNREFUSED'')"
    by (simp_all add: contains_Cons contains_Nil js_def)
  ultimately show ?thesis by simp
qed

section \<open>Media type of the result\<close>

text \<open>
  C7. When the remote service answers with a status from 200 to 299 and the bytes
  \<open>result\<close>, the text of \<open>splitPDF\<close>, \<open>convertPDFToImages\<close> and \<open>extractImages\<close> ends
  with the data URL of \<open>result\<close> under \<open>application/zip\<close>, and the text of each of the
  seven other tools ends with the data URL of \<open>result\<close> under \<open>application/pdf\<close>.
\<close>

theorem output_media_types:
  assumes "\<And>req. upstream e req = Response st reason location result" and "200 \<le> st" and "st < 300"
  defines "document \<equiv> js ''data:application/pdf;base64,'' @ toString_base64 result"
    and "archive \<equiv> js ''data:application/zip;base64,'' @ toString_base64 result"
  shows "(2 \<le> length pdfFiles \<longrightarrow>
           ends_with (fst (mergePDFs e (Some pdfFiles) sortType net)) document)
    \<and> (\<not> blank pdfFile \<and> \<not> blank pageNumbers \<longrightarrow>
           ends_with (fst (splitPDF e pdfFile pageNumbers net)) archive)
    \<and> (\<not> blank pdfFile \<longrightarrow> ends_with (fst (compressPDF e pdfFile optimizeLevel net)) document)
    \<and> (\<not> blank pdfFile \<longrightarrow>
           ends_with (fst (convertPDFToImages e pdfFile imageFormat dpi net)) archive)
    \<and> (\<not> blank pdfFile \<longrightarrow> ends_with (fst (rotatePDF e pdfFile angle pageNumbers net)) document)
    \<and> (\<not> blank pdfFile \<and> \<not> blank watermarkText \<longrightarrow>
           ends_with (fst (addWatermark e pdfFile watermarkText fontSize opacity rotation net)) document)
    \<and> (\<not> blank pdfFile \<and> \<not> blank pagesToRemove \<longrightarrow>
           ends_with (fst (removePages e pdfFile pagesToRemove net)) document)
    \<and> (\<not> blank pdfFile \<longrightarrow> ends_with (fst (extractImages e pdfFile imgFormat net)) archive)
    \<and> (imageFiles \<noteq> [] \<longrightarrow>
           ends_with (fst (convertImagesToPDF e (Some imageFiles) fitOption colorType net)) document)
    \<and> (\<not> blank pdfFile \<longrightarrow>
           ends_with (fst (ocrPDF e pdfFile languages sidecar deskew clean cleanFinal ocrType net))
             document)"
proof (intro conjI impI)
  note ful = run_fulfilled[OF _ assms(1,2,3)]
  show "ends_with (fst (mergePDFs e (Some pdfFiles) sortType net)) document"
    if "2 \<le> length pdfFiles"
    unfolding document_def ful[OF mergePDFs_run[OF not_blank_files[OF that]]]
    by (rule ends_with_pdf) (intro ends_with_append ends_with_refl)
  show "ends_with (fst (splitPDF e pdfFile pageNumbers net)) archive"
    if "\<not> blank pdfFile \<and> \<not> blank pageNumbers"
    unfolding archive_def ful[OF splitPDF_run[OF that[THEN conjunct1] that[THEN conjunct2]]]
    by (rule ends_with_zip) (intro ends_with_append ends_with_refl)
  show "ends_with (fst (compressPDF e pdfFile optimizeLevel net)) document" if "\<not> blank pdfFile"
    unfolding document_def ful[OF compressPDF_run[OF that]]
    by (rule ends_with_pdf) (intro ends_with_append ends_with_refl)
  show "ends_with (fst (convertPDFToImages e pdfFile imageFormat dpi net)) archive"
    if "\<not> blank pdfFile"
    unfolding archive_def ful[OF convertPDFToImages_run[OF that]]
    by (rule ends_with_zip) (intro ends_with_append ends_with_refl)
  show "ends_with (fst (rotatePDF e pdfFile angle pageNumbers net)) document" if "\<not> blank pdfFile"
    unfolding document_def ful[OF rotatePDF_run[OF that]]
    by (rule ends_with_pdf) (intro ends_with_append ends_with_refl)
  show "ends_with (fst (addWatermark e pdfFile watermarkText fontSize opacity rotation net)) document"
    if "\<not> blank pdfFile \<and> \<not> blank watermarkText"
    unfolding document_def ful[OF addWatermark_run[OF that[THEN conjunct1] that[THEN conjunct2]]]
    by (rule ends_with_pdf) (intro ends_with_append ends_with_refl)
  show "ends_with (fst (removePages e pdfFile pagesToRemove net)) document"
    if "\<not> blank pdfFile \<and> \<not> blank pagesToRemove"
    unfolding document_def ful[OF removePages_run[OF that[THEN conjunct1] that[THEN conjunct2]]]
    by (rule ends_with_pdf) (intro ends_with_append ends_with_refl)
  show "ends_with (fst (extractImages e pdfFile imgFormat net)) archive" if "\<not> blank pdfFile"
    unfolding archive_def ful[OF extractImages_run[OF that]]
    by (rule ends_with_zip) (intro ends_with_append ends_with_refl)
  show "ends_with (fst (convertImagesToPDF e (Some imageFiles) fitOption colorType net)) document"
    if "imageFiles \<noteq> []"
    unfolding document_def ful[OF convertImagesToPDF_run[OF not_blank_images[OF that]]]
    by (rule ends_with_pdf) (intro ends_with_append ends_with_refl)
  show "ends_with (fst (ocrPDF e pdfFile languages sidecar deskew clean cleanFinal ocrType net))
          document"
    if "\<not> blank pdfFile"
    unfolding document_def ful[OF ocrPDF_run[OF that]]
    by (rule ends_with_pdf) (intro ends_with_append ends_with_refl)
qed

theorem output_media_types_witness:
  "ends_with (fst (splitPDF (stub (Response 200 (js ''OK'') [] [0x50, 0x4B]))
                     (Some (js ''JVBERg=='')) (Some (js ''2'')) []))
     (js ''data:application/zip;base64,UEs='')
   \<and> ends_with (fst (compressPDF (stub (Response 200 (js ''OK'') [] [0x50, 0x4B]))
                     (Some (js ''JVBERg=='')) None []))
     (js ''data:application/pdf;base64,UEs='')"
proof -
  have ok: "200 \<le> (200::nat)" "(200::nat) < 300" by simp_all
  note types = output_media_types[OF zip_stub ok,
      where pdfFile = "Some (js ''JVBERg=='')" and pageNumbers = "Some (js ''2'')"
        and optimizeLevel = None and net = "[]"]
  have present: "\<not> blank (Some (js ''JVBERg=='')) \<and> \<not> blank (Some (js ''2''))"
    using present_pdf present_pages by simp
  note split = types[THEN conjunct2, THEN conjunct1, THEN mp, OF present]
  note compress = types[THEN conjunct2, THEN conjunct2, THEN conjunct1, THEN mp, OF present_pdf]
  have "js ''data:application/zip;base64,'' @ js ''UEs='' = js ''data:application/zip;base64,UEs=''"
    "js ''data:application/pdf;base64,'' @ js ''UEs='' = js ''data:application/pdf;base64,UEs=''"
    by (simp_all add: js_def)
  then show ?thesis using split compress by (simp add: base64_PK)
qed

section \<open>Dispatcher\<close>

text \<open>
  C8. For a name that is none of the ten tool names, the dispatcher returns the
  envelope flagged \<open>isError\<close> whose text is \<open>Error: Unknown tool: <name>\<close>, which
  contains the name, and issues no request.
\<close>

theorem invoke_unknown_tool:
  assumes "name \<notin> set TOOLS"
  shows "invoke e name a net =
           (\<lparr>content = [\<lparr>item_type = js ''text'',
                          item_text = cross_mark @ js '' Error: Unknown tool: '' @ name\<rparr>],
             isError = Some True\<rparr>, net)
         \<and> contains (cross_mark @ js '' Error: Unknown tool: '' @ name) name"
proof -
  have "switch_name e name a net = Inl (JsError (js ''Unknown tool: '' @ name))"
    using assms by (simp add: switch_name_def TOOLS_def)
  moreover have "js '' Error: '' @ js ''Unknown tool: '' @ name = js '' Error: Unknown tool: '' @ name"
    by (simp add: js_def)
  moreover have "contains (cross_mark @ js '' Error: Unknown tool: '' @ name) name"
    using containsI[of "cross_mark @ js '' Error: Unknown tool: ''" name "[]"] by simp
  ultimately show ?thesis by (simp add: invoke_def formatError_def)
qed

theorem invoke_unknown_tool_witness:
  "invoke (stub (Fault (NonError []))) (js ''delete_pdf'')
       \<lparr>strings = (\<lambda>key. None), arrays = (\<lambda>key. None)\<rparr> []
     = (\<lparr>content = [\<lparr>item_type = js ''text'',
                      item_text = cross_mark @ js '' Error: Unknown tool: delete_pdf''\<rparr>],
         isError = Some True\<rparr>, [])"
proof -
  have "js ''delete_pdf'' \<notin> set TOOLS" by (simp add: TOOLS_def js_def)
  from invoke_unknown_tool[OF this] show ?thesis by (simp add: js_def)
qed

end
